theory Spec2Isabelle
  imports Complex_Main "HOL-Library.Log_Nat"
begin

section \<open>Conventions of the embedding\<close>

text \<open>
  The two classes verified here are \<^verbatim>\<open>EarthRotationIers2010\<close>
  (\<^verbatim>\<open>classes/earthRotation/earthRotationIers2010.cpp\<close>) and \<^verbatim>\<open>Tides\<close> with its base
  class \<^verbatim>\<open>TidesBase\<close> (\<^verbatim>\<open>classes/tides/tides.cpp\<close>).

  \<^item> A \<^verbatim>\<open>Double\<close> is a \<open>real\<close>, and the arithmetic of the code is read exactly, with one
    exception: the sums of the aggregator \<^verbatim>\<open>Tides\<close>, where the order of the additions is the
    subject, are sums of \<^verbatim>\<open>Double\<close> with the rounding of every addition.
  \<^item> A \<^verbatim>\<open>UInt\<close> is a \<open>nat\<close>. \<^verbatim>\<open>UInt\<close> is \<^verbatim>\<open>std::size_t\<close> (\<^verbatim>\<open>base/portable.h\<close>), taken to have
    64 bits: the sizes and the indices that \<^verbatim>\<open>deformationMatrix\<close> computes are taken
    modulo \<open>2\<^sup>6\<^sup>4\<close>.
  \<^item> \<^verbatim>\<open>hn(n)\<close>, \<^verbatim>\<open>ln(n)\<close> and \<^verbatim>\<open>A(i,j) = ...\<close> in \<^verbatim>\<open>deformationMatrix\<close> are accesses to a
    \<^verbatim>\<open>Vector\<close> and a \<^verbatim>\<open>Matrix\<close> of the library that are not checked. Such an access beyond
    the size has no defined effect; the model ends there with the result
    \<open>Inl undefined_access\<close>, so that a matrix returned by the model is one that the code
    builds without such an access.
  \<^item> A thrown exception is the left summand of the result. \<^verbatim>\<open>GROOPS_RETHROW\<close> prefixes the
    message with the function's name and throws again; the model keeps the kind of the
    exception and leaves the prefix out.
  \<^item> Code of the library that the two files call and that is not part of the sources at
    hand (time scales, file readers, the polynomial interpolator, the IERS and ERFA
    routines, the spherical harmonics class) is a field of a record of collaborators,
    which every function of the model takes as its first argument.
\<close>

datatype exception =
    MissingDependencyError   \<comment> \<open>\<^verbatim>\<open>Exception("Compiled without ERFA library")\<close>\<close>
  | OutOfRangeError string   \<comment> \<open>\<^verbatim>\<open>Exception("No EOPs available: "+timeGPS.dateTimeStr())\<close>\<close>
  | CollaboratorError string \<comment> \<open>an exception thrown inside a collaborator\<close>
  | std_out_of_range         \<comment> \<open>\<^verbatim>\<open>std::vector::at\<close> beyond the end\<close>
  | undefined_access         \<comment> \<open>no exception: an element of a \<^verbatim>\<open>Vector\<close> or \<^verbatim>\<open>Matrix\<close> beyond its size\<close>

section \<open>Earth rotation according to IERS 2010\<close>

subsection \<open>Data\<close>

text \<open>
  One row of the matrix \<^verbatim>\<open>EOP\<close> after the column of the modified Julian dates has been
  removed: columns 0 to 5. The comments of the constructor name columns 0, 1, 4, 5
  (\<^verbatim>\<open>xp\<close>, \<^verbatim>\<open>yp\<close>, \<^verbatim>\<open>dX\<close>, \<^verbatim>\<open>dY\<close>); the query reads column 2 as \<^verbatim>\<open>deltaUT\<close> and column 3
  as \<^verbatim>\<open>LOD\<close>.
\<close>

record EOPRow =
  col_xp :: real
  col_yp :: real
  col_deltaUT :: real
  col_LOD :: real
  col_dX :: real
  col_dY :: real

text \<open>A row of the file: the modified Julian date (column 0) and the six values.\<close>

type_synonym EOPFileRow = "real \<times> EOPRow"

text \<open>What \<^verbatim>\<open>readConfig\<close> and \<^verbatim>\<open>isCreateSchema\<close> deliver to the constructor.\<close>

record Config =
  eopName :: string          \<comment> \<open>\<^verbatim>\<open>inputfileEOP\<close>, empty when not configured\<close>
  cfg_useTruncated :: bool   \<comment> \<open>\<^verbatim>\<open>truncatedNutation\<close>\<close>
  isCreateSchema :: bool

text \<open>
  The collaborators of the class. \<open>'t\<close> is the class \<^verbatim>\<open>Time\<close>, of which the code uses the
  comparisons \<^verbatim>\<open><\<close> and \<^verbatim>\<open>>\<close> (a linear order), the difference and the accessors below.
\<close>

record 't Collaborators =
  NOLIB_ERFA :: bool   \<comment> \<open>the build was configured without the ERFA library\<close>
  DEG2RAD :: real
  readFileEarthOrientationParameter :: "string \<Rightarrow> string + EOPFileRow list"
  mjd2time :: "real \<Rightarrow> 't"
  timeUTC2GPS :: "'t \<Rightarrow> 't"
  timeGPS2UTC :: "'t \<Rightarrow> 't"
  timeGPS2TT :: "'t \<Rightarrow> 't"
  time_minus :: "'t \<Rightarrow> 't \<Rightarrow> 't"   \<comment> \<open>\<^verbatim>\<open>Time::operator-\<close>\<close>
  seconds :: "'t \<Rightarrow> real"
  mjd :: "'t \<Rightarrow> real"
  mjdInt :: "'t \<Rightarrow> int"
  mjdMod :: "'t \<Rightarrow> real"
  dateTimeStr :: "'t \<Rightarrow> string"
  interpolate :: "nat option \<Rightarrow> 't \<Rightarrow> 't list \<Rightarrow> EOPRow list \<Rightarrow> string + EOPRow"
    \<comment> \<open>\<^verbatim>\<open>polynomial.interpolate({timeUTC}, times, EOP, 1)\<close>: row 0 of the result, for a
        polynomial of the given degree (\<open>None\<close> before \<^verbatim>\<open>init\<close>)\<close>
  ortho_eop :: "real \<Rightarrow> real \<times> real \<times> real"
  pmsdnut2 :: "real \<Rightarrow> real \<times> real"
  utlibr :: "real \<Rightarrow> real \<times> real"
  eraSp00 :: "real \<Rightarrow> real \<Rightarrow> real"
  eraXys00b :: "real \<Rightarrow> real \<Rightarrow> real \<times> real \<times> real"
  eraXy06 :: "real \<Rightarrow> real \<Rightarrow> real \<times> real"
  eraS06 :: "real \<Rightarrow> real \<Rightarrow> real \<Rightarrow> real \<Rightarrow> real"

text \<open>The members of the class.\<close>

record 't EarthRotationIers2010 =
  times' :: "'t list"   \<comment> \<open>the member \<^verbatim>\<open>times\<close>\<close>
  EOP :: "EOPRow list"
  polynomial :: "nat option"
  useTruncated :: bool

text \<open>The eight outputs of \<^verbatim>\<open>earthOrientationParameter\<close>.\<close>

record EarthOrientation =
  out_xp :: real
  out_yp :: real
  out_sp :: real
  out_deltaUT :: real
  out_LOD :: real
  out_X :: real
  out_Y :: real
  out_S :: real

subsection \<open>The constructor\<close>

text \<open>The members before the body of the constructor runs.\<close>

definition members_initial :: "Config \<Rightarrow> 't EarthRotationIers2010" where
  "members_initial config =
     \<lparr>times' = [], EOP = [], polynomial = None, useTruncated = cfg_useTruncated config\<rparr>"

text \<open>
  \<^verbatim>\<open>EOP(i,2) -= (timeUTC2GPS(times.at(i))-times.at(i)).seconds()\<close> for every row; the vector
  \<^verbatim>\<open>times\<close> has as many entries as the matrix has rows.
\<close>

definition UT1_UTC_to_UT1_GPS :: "'t Collaborators \<Rightarrow> 't \<Rightarrow> EOPRow \<Rightarrow> EOPRow" where
  "UT1_UTC_to_UT1_GPS ext t row =
     row\<lparr>col_deltaUT :=
       col_deltaUT row - seconds ext (time_minus ext (timeUTC2GPS ext t) t)\<rparr>"

text \<open>The four statements \<^verbatim>\<open>EOP.column(c) *= DEG2RAD/3600\<close> for c = 0, 1, 4, 5.\<close>

definition scale_columns :: "'t Collaborators \<Rightarrow> EOPRow \<Rightarrow> EOPRow" where
  "scale_columns ext row =
     row\<lparr>col_xp := col_xp row * (DEG2RAD ext / 3600),
         col_yp := col_yp row * (DEG2RAD ext / 3600),
         col_dX := col_dX row * (DEG2RAD ext / 3600),
         col_dY := col_dY row * (DEG2RAD ext / 3600)\<rparr>"

definition EarthRotationIers2010_new ::
  "'t Collaborators \<Rightarrow> Config \<Rightarrow> exception + 't EarthRotationIers2010" where
  "EarthRotationIers2010_new ext config =
     (if isCreateSchema config then Inr (members_initial config)
      else if NOLIB_ERFA ext then Inl MissingDependencyError
      else if eopName config = [] then Inr (members_initial config)
      else
        (case readFileEarthOrientationParameter ext (eopName config) of
           Inl msg \<Rightarrow> Inl (CollaboratorError msg)
         | Inr file \<Rightarrow>
             (let ts' = map (\<lambda>row. mjd2time ext (fst row)) file;
                  EOP1 = map snd file;
                  EOP2 = map2 (UT1_UTC_to_UT1_GPS ext) ts' EOP1;
                  EOP3 = map (scale_columns ext) EOP2
              in Inr \<lparr>times' = ts', EOP = EOP3, polynomial = Some 3,
                      useTruncated = cfg_useTruncated config\<rparr>)))"

subsection \<open>The query\<close>

text \<open>
  The block \<^verbatim>\<open>if(EOP.size())\<close>: the interpolated row, with the offset \<^verbatim>\<open>timeGPS-timeUTC\<close>
  added to column 2; a row of zeros when the matrix is empty (the initial values
  \<^verbatim>\<open>xp = yp = deltaUT = LOD = 0\<close>, \<^verbatim>\<open>dX=0, dY=0\<close>). \<^verbatim>\<open>times.at(0)\<close> throws on an empty vector.
\<close>

definition zero_row :: EOPRow where
  "zero_row = \<lparr>col_xp = 0, col_yp = 0, col_deltaUT = 0, col_LOD = 0, col_dX = 0, col_dY = 0\<rparr>"

definition interpolate_EOP ::
  "('t::linorder) Collaborators \<Rightarrow> 't EarthRotationIers2010 \<Rightarrow> 't \<Rightarrow> exception + EOPRow" where
  "interpolate_EOP ext self timeGPS =
     (if EOP self \<noteq> [] then
        (let timeUTC = timeGPS2UTC ext timeGPS in
         case times' self of
           [] \<Rightarrow> Inl std_out_of_range
         | t0 # ts \<Rightarrow>
             if timeUTC < t0 \<or> timeUTC > last (t0 # ts)
             then Inl (OutOfRangeError (''No EOPs available: '' @ dateTimeStr ext timeGPS))
             else
               (case interpolate ext (polynomial self) timeUTC (times' self) (EOP self) of
                  Inl msg \<Rightarrow> Inl (CollaboratorError msg)
                | Inr eop \<Rightarrow>
                    Inr (eop\<lparr>col_deltaUT :=
                      col_deltaUT eop + seconds ext (time_minus ext timeGPS timeUTC)\<rparr>)))
      else Inr zero_row)"

text \<open>
  The part after the block, from \<^verbatim>\<open>// Models\<close> to the end: the short period models, the
  angle \<^verbatim>\<open>sp\<close>, precession and nutation.
\<close>

abbreviation micro :: real where
  "micro \<equiv> 1 / 10 ^ 6"   \<comment> \<open>the literal \<^verbatim>\<open>1e-6\<close>\<close>

text \<open>
  The block \<^verbatim>\<open>// precession & nutation\<close>: \<^verbatim>\<open>eraXys00b\<close> when \<^verbatim>\<open>useTruncated\<close> is set,
  \<^verbatim>\<open>eraXy06\<close> and \<^verbatim>\<open>eraS06\<close> otherwise.
\<close>

definition precession_nutation ::
  "'t Collaborators \<Rightarrow> bool \<Rightarrow> real \<Rightarrow> real \<Rightarrow> real \<times> real \<times> real" where
  "precession_nutation ext truncated date1 date2 =
     (if truncated then eraXys00b ext date1 date2
      else (let (X, Y) = eraXy06 ext date1 date2
            in (X, Y, eraS06 ext date1 date2 X Y)))"

definition models ::
  "'t Collaborators \<Rightarrow> bool \<Rightarrow> 't \<Rightarrow> EOPRow \<Rightarrow> EarthOrientation" where
  "models ext truncated timeGPS eop =
     (let mjdUTC = mjd ext (timeGPS2UTC ext timeGPS);
          (dx, dy, du) = ortho_eop ext mjdUTC;
          xp1 = col_xp eop + dx * micro * DEG2RAD ext / 3600;
          yp1 = col_yp eop + dy * micro * DEG2RAD ext / 3600;
          deltaUT1 = col_deltaUT eop + du * micro;
          (pm0, pm1) = pmsdnut2 ext mjdUTC;
          xp2 = xp1 + pm0 * micro * DEG2RAD ext / 3600;
          yp2 = yp1 + pm1 * micro * DEG2RAD ext / 3600;
          (dut1, dlod) = utlibr ext mjdUTC;
          deltaUT2 = deltaUT1 + dut1 * micro;
          LOD1 = col_LOD eop + dlod * micro;
          timeTT = timeGPS2TT ext timeGPS;
          date1 = 2400000.5 + real_of_int (mjdInt ext timeTT);
          date2 = mjdMod ext timeTT;
          sp = eraSp00 ext date1 date2;
          (X, Y, S) = precession_nutation ext truncated date1 date2
      in \<lparr>out_xp = xp2, out_yp = yp2, out_sp = sp, out_deltaUT = deltaUT2, out_LOD = LOD1,
          out_X = X + col_dX eop, out_Y = Y + col_dY eop, out_S = S\<rparr>)"

definition earthOrientationParameter ::
  "('t::linorder) Collaborators \<Rightarrow> 't EarthRotationIers2010 \<Rightarrow> 't \<Rightarrow> exception + EarthOrientation" where
  "earthOrientationParameter ext self timeGPS =
     (if NOLIB_ERFA ext then Inl MissingDependencyError
      else
        (case interpolate_EOP ext self timeGPS of
           Inl e \<Rightarrow> Inl e
         | Inr eop \<Rightarrow> Inr (models ext (useTruncated self) timeGPS eop)))"

text \<open>The exception of the spec's kind \<^verbatim>\<open>OutOfRangeError\<close>, whatever its message.\<close>

fun isOutOfRangeError :: "exception + 'a \<Rightarrow> bool" where
  "isOutOfRangeError (Inl (OutOfRangeError msg)) = True"
| "isOutOfRangeError _ = False"

section \<open>Tides\<close>

subsection \<open>Vectors, tensors and matrices\<close>

text \<open>
  Modelled from the spec: the class \<^verbatim>\<open>Vector3d\<close> of the library, "3-vector", with the
  operations the two files use. The default constructor gives the zero vector ("empty
  aggregator returns ... zero vector acceleration"), \<^verbatim>\<open>+\<close>, \<^verbatim>\<open>+=\<close> and \<^verbatim>\<open>-\<close> work
  coordinate by coordinate, \<^verbatim>\<open>Double * Vector3d\<close> scales, \<^verbatim>\<open>inner\<close> is the scalar product
  and \<^verbatim>\<open>normalize\<close> divides by the length (the local "up" direction of a point). These
  are the operations inside a tide, in exact arithmetic; \<^verbatim>\<open>+=\<close> in the sums of the aggregator
  is \<open>Vector3d_plus\<close> below.
\<close>

datatype Vector3d = Vector3d (vec_x: real) (vec_y: real) (vec_z: real)

definition Vector3d_new :: Vector3d where
  "Vector3d_new = Vector3d 0 0 0"

fun vadd :: "Vector3d \<Rightarrow> Vector3d \<Rightarrow> Vector3d" where
  "vadd (Vector3d a b c) (Vector3d a' b' c') = Vector3d (a + a') (b + b') (c + c')"

fun vsub :: "Vector3d \<Rightarrow> Vector3d \<Rightarrow> Vector3d" where
  "vsub (Vector3d a b c) (Vector3d a' b' c') = Vector3d (a - a') (b - b') (c - c')"

fun vscale :: "real \<Rightarrow> Vector3d \<Rightarrow> Vector3d" where
  "vscale s (Vector3d a b c) = Vector3d (s * a) (s * b) (s * c)"

fun inner_v :: "Vector3d \<Rightarrow> Vector3d \<Rightarrow> real" where
  "inner_v (Vector3d a b c) (Vector3d a' b' c') = a * a' + b * b' + c * c'"

definition normalize_v :: "Vector3d \<Rightarrow> Vector3d" where
  "normalize_v v = vscale (1 / sqrt (inner_v v v)) v"

text \<open>
  Modelled from the spec: the class \<^verbatim>\<open>Tensor3d\<close>, "3x3 symmetric tensor", by its six
  independent entries; the default constructor gives zero.
\<close>

datatype Tensor3d = Tensor3d (t_xx: real) (t_yy: real) (t_zz: real) (t_xy: real) (t_xz: real) (t_yz: real)

definition Tensor3d_new :: Tensor3d where
  "Tensor3d_new = Tensor3d 0 0 0 0 0 0"

text \<open>
  Modelled from the spec: the class \<^verbatim>\<open>Matrix\<close>, with its numbers of rows and columns and
  the list of its rows. \<^verbatim>\<open>Matrix A(r, c)\<close> is filled with zeros, \<^verbatim>\<open>A(i, j) = v\<close> assigns one
  entry, and the product with a vector ("a single matrix-vector product") throws when the
  length of the vector is not the number of columns. \<^verbatim>\<open>v(i)\<close> reads one entry of a
  \<^verbatim>\<open>Vector\<close>, which is a list.
\<close>

record Matrix =
  Matrix_rows :: nat
  Matrix_columns :: nat
  Matrix_elements :: "real list list"

definition Matrix_new :: "nat \<Rightarrow> nat \<Rightarrow> Matrix" where
  "Matrix_new r c =
     \<lparr>Matrix_rows = r, Matrix_columns = c, Matrix_elements = replicate r (replicate c 0)\<rparr>"

definition assign_elements :: "real list list \<Rightarrow> nat \<Rightarrow> nat \<Rightarrow> real \<Rightarrow> real list list" where
  "assign_elements E i j v = E[i := (E ! i)[j := v]]"

definition assign :: "Matrix \<Rightarrow> nat \<Rightarrow> nat \<Rightarrow> real \<Rightarrow> exception + Matrix" where
  "assign A i j v =
     (if i < Matrix_rows A \<and> j < Matrix_columns A
      then Inr (A\<lparr>Matrix_elements := assign_elements (Matrix_elements A) i j v\<rparr>)
      else Inl undefined_access)"

definition Vector_element :: "real list \<Rightarrow> nat \<Rightarrow> exception + real" where
  "Vector_element v i = (if i < length v then Inr (v ! i) else Inl undefined_access)"

definition matrix_times_vector :: "Matrix \<Rightarrow> real list \<Rightarrow> exception + real list" where
  "matrix_times_vector A v =
     (if length v = Matrix_columns A
      then Inr (map (\<lambda>row. sum_list (map2 (*) row v)) (Matrix_elements A))
      else Inl (CollaboratorError ''Dimension error''))"

text \<open>The value of an expression of the type \<^verbatim>\<open>UInt\<close>.\<close>

definition UInt :: "nat \<Rightarrow> nat" where
  "UInt x = x mod 2 ^ 64"

subsection \<open>The addition of Double\<close>

text \<open>
  \<^verbatim>\<open>Double\<close> is \<^verbatim>\<open>double\<close> (\<^verbatim>\<open>base/portable.h\<close>), the binary64 format of IEEE 754: a sum is the
  number of the format nearest to the exact sum, and of two nearest numbers the one with
  the even significand. A number other than 0 with \<open>2\<^sup>e \<le> |x| < 2\<^sup>e\<^sup>+\<^sup>1\<close> is rounded to a
  multiple of \<open>2\<^sup>e\<^sup>-\<^sup>5\<^sup>2\<close>, and to a multiple of \<open>2\<^sup>-\<^sup>1\<^sup>0\<^sup>7\<^sup>4\<close> when \<open>e\<close> is less than -1022. The
  format ends below \<open>2\<^sup>1\<^sup>0\<^sup>2\<^sup>4\<close>: a sum that is rounded to that or beyond is infinite in the
  code, and since a \<open>real\<close> is never infinite the model keeps the rounded number.
\<close>

definition round_to_even :: "real \<Rightarrow> int" where
  "round_to_even x =
     (let n = \<lfloor>x\<rfloor>
      in if x - of_int n < 1 / 2 then n
         else if 1 / 2 < x - of_int n then n + 1
         else if even n then n else n + 1)"

text \<open>The exponent \<open>e\<close> of a number other than 0.\<close>

definition exponent :: "real \<Rightarrow> int" where
  "exponent x = (if 1 \<le> \<bar>x\<bar> then bitlen \<lfloor>\<bar>x\<bar>\<rfloor> - 1 else - bitlen (\<lceil>1 / \<bar>x\<bar>\<rceil> - 1))"

definition binary64 :: "real \<Rightarrow> real" where
  "binary64 x =
     (if x = 0 then 0
      else let ulp = 2 powi (max (exponent x) (- 1022) - 52)
           in of_int (round_to_even (x / ulp)) * ulp)"

definition Double_plus :: "real \<Rightarrow> real \<Rightarrow> real" where
  "Double_plus x y = binary64 (x + y)"

text \<open>
  \<^verbatim>\<open>+=\<close> on a \<^verbatim>\<open>Vector3d\<close> and on a \<^verbatim>\<open>Tensor3d\<close>, with the additions of \<^verbatim>\<open>Double\<close>.
\<close>

fun Vector3d_plus :: "Vector3d \<Rightarrow> Vector3d \<Rightarrow> Vector3d" where
  "Vector3d_plus (Vector3d a b c) (Vector3d a' b' c') =
     Vector3d (Double_plus a a') (Double_plus b b') (Double_plus c c')"

fun Tensor3d_plus :: "Tensor3d \<Rightarrow> Tensor3d \<Rightarrow> Tensor3d" where
  "Tensor3d_plus (Tensor3d a b c d e f) (Tensor3d a' b' c' d' e' f') =
     Tensor3d (Double_plus a a') (Double_plus b b') (Double_plus c c')
              (Double_plus d d') (Double_plus e e') (Double_plus f f')"

subsection \<open>Exceptions in loops\<close>

text \<open>\<^verbatim>\<open>std::vector::at\<close>.\<close>

definition vector_at :: "'a list \<Rightarrow> nat \<Rightarrow> exception + 'a" where
  "vector_at xs i = (if i < length xs then Inr (xs ! i) else Inl std_out_of_range)"

text \<open>
  A \<^verbatim>\<open>for\<close> loop over the given indices or elements whose body may throw: the first
  exception ends the loop.
\<close>

fun for_each :: "'i list \<Rightarrow> ('i \<Rightarrow> 's \<Rightarrow> exception + 's) \<Rightarrow> 's \<Rightarrow> exception + 's" where
  "for_each [] body s = Inr s"
| "for_each (i # rest) body s =
     (case body i s of Inl e \<Rightarrow> Inl e | Inr s' \<Rightarrow> for_each rest body s')"

text \<open>The body \<^verbatim>\<open>acc += f(...)\<close> of such a loop.\<close>

definition add_to :: "('a \<Rightarrow> 'a \<Rightarrow> 'a) \<Rightarrow> exception + 'a \<Rightarrow> 'a \<Rightarrow> exception + 'a" where
  "add_to add result acc = (case result of Inl e \<Rightarrow> Inl e | Inr v \<Rightarrow> Inr (add acc v))"

subsection \<open>The collaborators\<close>

text \<open>
  The class \<^verbatim>\<open>SphericalHarmonics\<close> is the type \<open>'h\<close>; the record holds what the file uses of
  it, and the default arguments of \<^verbatim>\<open>TidesBase::sphericalHarmonics\<close>, which stand in the
  header of the class.
\<close>

record 'h Harmonics =
  SphericalHarmonics_new :: 'h             \<comment> \<open>\<^verbatim>\<open>SphericalHarmonics()\<close>\<close>
  harmonics_plus :: "'h \<Rightarrow> 'h \<Rightarrow> 'h"        \<comment> \<open>\<^verbatim>\<open>operator+=\<close>\<close>
  harmonics_GM :: "'h \<Rightarrow> real"
  harmonics_R :: "'h \<Rightarrow> real"
  harmonics_maxDegree :: "'h \<Rightarrow> nat"
  harmonics_x :: "'h \<Rightarrow> real list"          \<comment> \<open>\<^verbatim>\<open>x()\<close>, the vector of the coefficients\<close>
  CnmSnm :: "Vector3d \<Rightarrow> nat \<Rightarrow> (nat \<Rightarrow> nat \<Rightarrow> real) \<times> (nat \<Rightarrow> nat \<Rightarrow> real)"
  default_maxDegree :: nat
  default_minDegree :: nat
  default_GM :: real
  default_R :: real

text \<open>
  A tide: the virtual functions of \<^verbatim>\<open>TidesBase\<close>. \<open>'t\<close> is \<^verbatim>\<open>Time\<close>, \<open>'r\<close> is \<^verbatim>\<open>Rotary3d\<close>,
  \<open>'e\<close> is \<^verbatim>\<open>EarthRotationPtr\<close> and \<open>'p\<close> is \<^verbatim>\<open>EphemeridesPtr\<close>. The batch deformation takes
  the array \<^verbatim>\<open>disp\<close> and returns it updated.
\<close>

record ('t, 'r, 'e, 'p, 'h) TidesBase =
  potential :: "'t \<Rightarrow> Vector3d \<Rightarrow> 'r \<Rightarrow> 'e \<Rightarrow> 'p \<Rightarrow> exception + real"
  radialGradient :: "'t \<Rightarrow> Vector3d \<Rightarrow> 'r \<Rightarrow> 'e \<Rightarrow> 'p \<Rightarrow> exception + real"
  gravity :: "'t \<Rightarrow> Vector3d \<Rightarrow> 'r \<Rightarrow> 'e \<Rightarrow> 'p \<Rightarrow> exception + Vector3d"
  gravityGradient :: "'t \<Rightarrow> Vector3d \<Rightarrow> 'r \<Rightarrow> 'e \<Rightarrow> 'p \<Rightarrow> exception + Tensor3d"
  deformation ::
    "'t \<Rightarrow> Vector3d \<Rightarrow> 'r \<Rightarrow> 'e \<Rightarrow> 'p \<Rightarrow> real \<Rightarrow> real list \<Rightarrow> real list \<Rightarrow> exception + Vector3d"
  deformation_batch ::
    "'t list \<Rightarrow> Vector3d list \<Rightarrow> 'r list \<Rightarrow> 'e \<Rightarrow> 'p \<Rightarrow> real list \<Rightarrow> real list \<Rightarrow> real list
       \<Rightarrow> Vector3d list list \<Rightarrow> exception + Vector3d list list"
  sphericalHarmonics ::
    "'t \<Rightarrow> 'r \<Rightarrow> 'e \<Rightarrow> 'p \<Rightarrow> nat \<Rightarrow> nat \<Rightarrow> real \<Rightarrow> real \<Rightarrow> exception + 'h"

subsection \<open>The aggregator\<close>

text \<open>
  The member \<^verbatim>\<open>tides\<close> is a list of tides in the order of the configuration. Each function
  starts from zero (\<^verbatim>\<open>Double V = 0\<close>, \<^verbatim>\<open>Vector3d g\<close>, \<^verbatim>\<open>Tensor3d T\<close>) and adds the value of each
  tide in turn, with \<^verbatim>\<open>+=\<close> on a \<^verbatim>\<open>Double\<close>, a \<^verbatim>\<open>Vector3d\<close> or a \<^verbatim>\<open>Tensor3d\<close>.
\<close>

definition Tides_potential ::
  "('t, 'r, 'e, 'p, 'h) TidesBase list \<Rightarrow> 't \<Rightarrow> Vector3d \<Rightarrow> 'r \<Rightarrow> 'e \<Rightarrow> 'p \<Rightarrow> exception + real" where
  "Tides_potential tides timeGPS point rotEarth rotation ephemerides =
     for_each tides
       (\<lambda>tide V. add_to Double_plus (potential tide timeGPS point rotEarth rotation ephemerides) V) 0"

definition Tides_radialGradient ::
  "('t, 'r, 'e, 'p, 'h) TidesBase list \<Rightarrow> 't \<Rightarrow> Vector3d \<Rightarrow> 'r \<Rightarrow> 'e \<Rightarrow> 'p \<Rightarrow> exception + real" where
  "Tides_radialGradient tides timeGPS point rotEarth rotation ephemerides =
     for_each tides
       (\<lambda>tide dVdr. add_to Double_plus (radialGradient tide timeGPS point rotEarth rotation ephemerides) dVdr) 0"

definition Tides_acceleration ::
  "('t, 'r, 'e, 'p, 'h) TidesBase list \<Rightarrow> 't \<Rightarrow> Vector3d \<Rightarrow> 'r \<Rightarrow> 'e \<Rightarrow> 'p \<Rightarrow> exception + Vector3d" where
  "Tides_acceleration tides timeGPS point rotEarth rotation ephemerides =
     for_each tides
       (\<lambda>tide g. add_to Vector3d_plus (gravity tide timeGPS point rotEarth rotation ephemerides) g)
       Vector3d_new"

definition Tides_gradient ::
  "('t, 'r, 'e, 'p, 'h) TidesBase list \<Rightarrow> 't \<Rightarrow> Vector3d \<Rightarrow> 'r \<Rightarrow> 'e \<Rightarrow> 'p \<Rightarrow> exception + Tensor3d" where
  "Tides_gradient tides timeGPS point rotEarth rotation ephemerides =
     for_each tides
       (\<lambda>tide T. add_to Tensor3d_plus (gravityGradient tide timeGPS point rotEarth rotation ephemerides) T)
       Tensor3d_new"

definition Tides_deformation ::
  "('t, 'r, 'e, 'p, 'h) TidesBase list \<Rightarrow> 't \<Rightarrow> Vector3d \<Rightarrow> 'r \<Rightarrow> 'e \<Rightarrow> 'p
     \<Rightarrow> real \<Rightarrow> real list \<Rightarrow> real list \<Rightarrow> exception + Vector3d" where
  "Tides_deformation tides timeGPS point rotEarth rotation ephemerides gravity' hn ln' =
     for_each tides
       (\<lambda>tide pos. add_to Vector3d_plus
          (deformation tide timeGPS point rotEarth rotation ephemerides gravity' hn ln') pos)
       Vector3d_new"

definition Tides_deformation_batch ::
  "('t, 'r, 'e, 'p, 'h) TidesBase list \<Rightarrow> 't list \<Rightarrow> Vector3d list \<Rightarrow> 'r list \<Rightarrow> 'e \<Rightarrow> 'p
     \<Rightarrow> real list \<Rightarrow> real list \<Rightarrow> real list \<Rightarrow> Vector3d list list
     \<Rightarrow> exception + Vector3d list list" where
  "Tides_deformation_batch tides timeGPS point rotEarth rotation ephemerides gravity' hn ln' disp =
     for_each tides
       (\<lambda>tide disp'.
          deformation_batch tide timeGPS point rotEarth rotation ephemerides gravity' hn ln' disp')
       disp"

definition Tides_sphericalHarmonics ::
  "'h Harmonics \<Rightarrow> ('t, 'r, 'e, 'p, 'h) TidesBase list \<Rightarrow> 't \<Rightarrow> 'r \<Rightarrow> 'e \<Rightarrow> 'p
     \<Rightarrow> nat \<Rightarrow> nat \<Rightarrow> real \<Rightarrow> real \<Rightarrow> exception + 'h" where
  "Tides_sphericalHarmonics lib tides timeGPS rotEarth rotation ephemerides maxDegree minDegree GM R =
     (case tides of
        [] \<Rightarrow> Inr (SphericalHarmonics_new lib)
      | tide0 # rest \<Rightarrow>
          (case sphericalHarmonics tide0 timeGPS rotEarth rotation ephemerides maxDegree minDegree GM R of
             Inl e \<Rightarrow> Inl e
           | Inr harmonics0 \<Rightarrow>
               for_each rest
                 (\<lambda>tide harmonics. add_to (harmonics_plus lib)
                    (sphericalHarmonics tide timeGPS rotEarth rotation ephemerides maxDegree minDegree GM R)
                    harmonics)
                 harmonics0))"

subsection \<open>The deformation matrix\<close>

text \<open>
  The bodies of the loops of \<^verbatim>\<open>TidesBase::deformationMatrix\<close> for one point: the vector
  \<^verbatim>\<open>disp\<close> of order 0 and degree \<open>n\<close>, and for an order \<open>m\<close> from 1 on the vector of the cosine
  and the vector of the sine coefficient. The local names are those of the source.
  \<^verbatim>\<open>hn(n)\<close> and \<^verbatim>\<open>ln(n)\<close> are reads without a check.
\<close>

definition disp_of :: "real \<Rightarrow> real \<Rightarrow> real \<Rightarrow> real \<Rightarrow> Vector3d \<Rightarrow> Vector3d \<Rightarrow> Vector3d" where
  "disp_of hn_n ln_n gravity_k Vn gradVn up =
     vadd (vscale (hn_n / gravity_k * Vn) up)
          (vscale (ln_n / gravity_k) (vsub gradVn (vscale (inner_v gradVn up) up)))"

definition disp_order0 ::
  "'h Harmonics \<Rightarrow> Vector3d \<Rightarrow> real \<Rightarrow> real list \<Rightarrow> real list \<Rightarrow> real \<Rightarrow> real \<Rightarrow> nat \<Rightarrow> nat
     \<Rightarrow> exception + Vector3d" where
  "disp_order0 lib point_k gravity_k hn ln' GM R maxDegree n =
     (let up = normalize_v point_k;
          (Cnm, Snm) = CnmSnm lib (vscale (1 / R) point_k) (UInt (maxDegree + 1));
          wm0 = sqrt ((real n + 1) * (real n + 1));
          wp1 = sqrt ((real n + 1) * (real n + 2)) / sqrt 2;
          Cm0 = wm0 * Cnm (n + 1) 0;
          Cp1 = wp1 * Cnm (n + 1) 1;
          Sp1 = wp1 * Snm (n + 1) 1;
          Vn = GM / R * Cnm n 0;
          gradVn = vscale (GM / (2 * R) * sqrt ((real (2 * n) + 1) / (real (2 * n) + 3)))
                     (Vector3d (- 2 * Cp1) (- 2 * Sp1) (- 2 * Cm0))
      in case Vector_element hn n of
           Inl e \<Rightarrow> Inl e
         | Inr hn_n \<Rightarrow>
             (case Vector_element ln' n of
                Inl e \<Rightarrow> Inl e
              | Inr ln_n \<Rightarrow> Inr (disp_of hn_n ln_n gravity_k Vn gradVn up)))"

definition disp_cos ::
  "'h Harmonics \<Rightarrow> Vector3d \<Rightarrow> real \<Rightarrow> real list \<Rightarrow> real list \<Rightarrow> real \<Rightarrow> real \<Rightarrow> nat \<Rightarrow> nat \<Rightarrow> nat
     \<Rightarrow> exception + Vector3d" where
  "disp_cos lib point_k gravity_k hn ln' GM R maxDegree m n =
     (let up = normalize_v point_k;
          (Cnm, Snm) = CnmSnm lib (vscale (1 / R) point_k) (UInt (maxDegree + 1));
          wm1 = sqrt ((real (n - m) + 1) * (real (n - m) + 2)) * (if m = 1 then sqrt 2 else 1);
          wm0 = sqrt ((real (n - m) + 1) * (real (n + m) + 1));
          wp1 = sqrt ((real (n + m) + 1) * (real (n + m) + 2));
          Cm1 = wm1 * Cnm (n + 1) (m - 1);  Sm1 = wm1 * Snm (n + 1) (m - 1);
          Cm0 = wm0 * Cnm (n + 1) m;        Sm0 = wm0 * Snm (n + 1) m;
          Cp1 = wp1 * Cnm (n + 1) (m + 1);  Sp1 = wp1 * Snm (n + 1) (m + 1);
          Vn = GM / R * Cnm n m;
          gradVn = vscale (GM / (2 * R) * sqrt ((real (2 * n) + 1) / (real (2 * n) + 3)))
                     (Vector3d (Cm1 - Cp1) (- Sm1 - Sp1) (- 2 * Cm0))
      in case Vector_element hn n of
           Inl e \<Rightarrow> Inl e
         | Inr hn_n \<Rightarrow>
             (case Vector_element ln' n of
                Inl e \<Rightarrow> Inl e
              | Inr ln_n \<Rightarrow> Inr (disp_of hn_n ln_n gravity_k Vn gradVn up)))"

definition disp_sin ::
  "'h Harmonics \<Rightarrow> Vector3d \<Rightarrow> real \<Rightarrow> real list \<Rightarrow> real list \<Rightarrow> real \<Rightarrow> real \<Rightarrow> nat \<Rightarrow> nat \<Rightarrow> nat
     \<Rightarrow> exception + Vector3d" where
  "disp_sin lib point_k gravity_k hn ln' GM R maxDegree m n =
     (let up = normalize_v point_k;
          (Cnm, Snm) = CnmSnm lib (vscale (1 / R) point_k) (UInt (maxDegree + 1));
          wm1 = sqrt ((real (n - m) + 1) * (real (n - m) + 2)) * (if m = 1 then sqrt 2 else 1);
          wm0 = sqrt ((real (n - m) + 1) * (real (n + m) + 1));
          wp1 = sqrt ((real (n + m) + 1) * (real (n + m) + 2));
          Cm1 = wm1 * Cnm (n + 1) (m - 1);  Sm1 = wm1 * Snm (n + 1) (m - 1);
          Cm0 = wm0 * Cnm (n + 1) m;        Sm0 = wm0 * Snm (n + 1) m;
          Cp1 = wp1 * Cnm (n + 1) (m + 1);  Sp1 = wp1 * Snm (n + 1) (m + 1);
          Vn = GM / R * Snm n m;
          gradVn = vscale (GM / (2 * R) * sqrt ((real (2 * n) + 1) / (real (2 * n) + 3)))
                     (Vector3d (Sm1 - Sp1) (Cm1 + Cp1) (- 2 * Sm0))
      in case Vector_element hn n of
           Inl e \<Rightarrow> Inl e
         | Inr hn_n \<Rightarrow>
             (case Vector_element ln' n of
                Inl e \<Rightarrow> Inl e
              | Inr ln_n \<Rightarrow> Inr (disp_of hn_n ln_n gravity_k Vn gradVn up)))"

text \<open>
  The assignments to the matrix for the point \<open>k\<close>, in the order of the loops: the number of
  the column and the vector whose coordinates go to the rows \<^verbatim>\<open>3*k+0\<close>, \<^verbatim>\<open>3*k+1\<close>, \<^verbatim>\<open>3*k+2\<close>
  of that column. First the loop \<^verbatim>\<open>// 0. order\<close> over \<open>n\<close>, then the loops
  \<^verbatim>\<open>// other orders\<close> over \<open>m\<close> and, inside, over \<open>n\<close> from \<open>m\<close> on.
\<close>

definition columns_of_point ::
  "'h Harmonics \<Rightarrow> Vector3d \<Rightarrow> real \<Rightarrow> real list \<Rightarrow> real list \<Rightarrow> real \<Rightarrow> real \<Rightarrow> nat
     \<Rightarrow> (nat \<times> (exception + Vector3d)) list" where
  "columns_of_point lib point_k gravity_k hn ln' GM R maxDegree =
     map (\<lambda>n. (UInt (n * n), disp_order0 lib point_k gravity_k hn ln' GM R maxDegree n))
       [0..<maxDegree + 1]
     @ concat (map (\<lambda>m. concat (map (\<lambda>n.
           [(UInt (n * n + 2 * m - 1), disp_cos lib point_k gravity_k hn ln' GM R maxDegree m n),
            (UInt (n * n + 2 * m), disp_sin lib point_k gravity_k hn ln' GM R maxDegree m n)])
         [m..<maxDegree + 1])) [1..<maxDegree + 1])"

text \<open>
  One round of a loop over \<open>n\<close> from the point where \<^verbatim>\<open>disp\<close> has been computed: the three
  assignments.
\<close>

definition assign_column :: "nat \<Rightarrow> nat \<times> (exception + Vector3d) \<Rightarrow> Matrix \<Rightarrow> exception + Matrix" where
  "assign_column k cd A =
     (case snd cd of
        Inl e \<Rightarrow> Inl e
      | Inr disp \<Rightarrow>
          (case assign A (UInt (3 * k + 0)) (fst cd) (vec_x disp) of
             Inl e \<Rightarrow> Inl e
           | Inr A1 \<Rightarrow>
               (case assign A1 (UInt (3 * k + 1)) (fst cd) (vec_y disp) of
                  Inl e \<Rightarrow> Inl e
                | Inr A2 \<Rightarrow> assign A2 (UInt (3 * k + 2)) (fst cd) (vec_z disp))))"

text \<open>
  \<^verbatim>\<open>TidesBase::deformationMatrix\<close>. \<^verbatim>\<open>gravity.at(k)\<close> stands in every body of the loops over
  \<open>n\<close>, of which the first runs at least once: it throws in the round of the first point
  without a gravity value. The loops over \<open>n\<close> and \<open>m\<close> run while \<^verbatim>\<open>n<=maxDegree\<close>; for the one
  \<^verbatim>\<open>maxDegree\<close> for which that is every \<^verbatim>\<open>UInt\<close>, \<open>2\<^sup>6\<^sup>4 - 1\<close>, the matrix has no column and
  the first assignment is beyond its size.
\<close>

definition deformationMatrix ::
  "'h Harmonics \<Rightarrow> Vector3d list \<Rightarrow> real list \<Rightarrow> real list \<Rightarrow> real list \<Rightarrow> real \<Rightarrow> real \<Rightarrow> nat
     \<Rightarrow> exception + Matrix" where
  "deformationMatrix lib point gravity' hn ln' GM R maxDegree =
     for_each [0..<length point]
       (\<lambda>k A. case vector_at gravity' k of
                 Inl e \<Rightarrow> Inl e
               | Inr gravity_k \<Rightarrow>
                   for_each (columns_of_point lib (point ! k) gravity_k hn ln' GM R maxDegree)
                     (assign_column k) A)
       (Matrix_new (UInt (3 * length point)) (UInt ((maxDegree + 1) * (maxDegree + 1))))"

subsection \<open>The batch deformation of the base class\<close>

text \<open>
  The three statements \<^verbatim>\<open>disp.at(k).at(i).x() += Ax(3*k+0)\<close> and so on: the entries of
  \<^verbatim>\<open>Ax\<close> for the point \<open>k\<close> are added to the displacement of the point \<open>k\<close> at the
  epoch \<open>i\<close>.
\<close>

definition displacement_of :: "real list \<Rightarrow> nat \<Rightarrow> Vector3d" where
  "displacement_of Ax k = Vector3d (Ax ! (3 * k + 0)) (Ax ! (3 * k + 1)) (Ax ! (3 * k + 2))"

definition add_displacement ::
  "nat \<Rightarrow> real list \<Rightarrow> nat \<Rightarrow> Vector3d list list \<Rightarrow> exception + Vector3d list list" where
  "add_displacement i Ax k disp =
     (case vector_at disp k of
        Inl e \<Rightarrow> Inl e
      | Inr disp_k \<Rightarrow>
          (case vector_at disp_k i of
             Inl e \<Rightarrow> Inl e
           | Inr d \<Rightarrow> Inr (disp[k := disp_k[i := vadd d (displacement_of Ax k)]])))"

text \<open>
  The vector \<^verbatim>\<open>Ax\<close> of the epoch \<open>i\<close>: the harmonics of the tide at that epoch, with the
  default arguments, through the matrix.
\<close>

definition epoch_Ax ::
  "'h Harmonics \<Rightarrow> ('t, 'r, 'e, 'p, 'h) TidesBase \<Rightarrow> 't list \<Rightarrow> 'r list \<Rightarrow> 'e \<Rightarrow> 'p \<Rightarrow> Matrix \<Rightarrow> nat
     \<Rightarrow> exception + real list" where
  "epoch_Ax lib self time rotEarth rotation ephemerides A i =
     (case vector_at time i of
        Inl e \<Rightarrow> Inl e
      | Inr time_i \<Rightarrow>
         (case vector_at rotEarth i of
            Inl e \<Rightarrow> Inl e
          | Inr rotEarth_i \<Rightarrow>
             (case sphericalHarmonics self time_i rotEarth_i rotation ephemerides
                     (default_maxDegree lib) (default_minDegree lib) (default_GM lib) (default_R lib) of
                Inl e \<Rightarrow> Inl e
              | Inr harm_i \<Rightarrow> matrix_times_vector A (harmonics_x lib harm_i))))"

text \<open>The matrix \<^verbatim>\<open>A\<close>: built once, from the harmonics of the first epoch.\<close>

definition batch_matrix ::
  "'h Harmonics \<Rightarrow> ('t, 'r, 'e, 'p, 'h) TidesBase \<Rightarrow> 't list \<Rightarrow> Vector3d list \<Rightarrow> 'r list \<Rightarrow> 'e \<Rightarrow> 'p
     \<Rightarrow> real list \<Rightarrow> real list \<Rightarrow> real list \<Rightarrow> exception + Matrix" where
  "batch_matrix lib self time point rotEarth rotation ephemerides gravity' hn ln' =
     (case vector_at time 0 of
        Inl e \<Rightarrow> Inl e
      | Inr time_0 \<Rightarrow>
         (case vector_at rotEarth 0 of
            Inl e \<Rightarrow> Inl e
          | Inr rotEarth_0 \<Rightarrow>
             (case sphericalHarmonics self time_0 rotEarth_0 rotation ephemerides
                     (default_maxDegree lib) (default_minDegree lib) (default_GM lib) (default_R lib) of
                Inl e \<Rightarrow> Inl e
              | Inr harm \<Rightarrow>
                  deformationMatrix lib point gravity' hn ln'
                    (harmonics_GM lib harm) (harmonics_R lib harm) (harmonics_maxDegree lib harm))))"

text \<open>
  \<^verbatim>\<open>TidesBase::deformation\<close> for many points and times. The array \<^verbatim>\<open>disp\<close> is passed by
  reference; the model returns the array when the function returns and only the exception
  when it throws.
\<close>

definition TidesBase_deformation_batch ::
  "'h Harmonics \<Rightarrow> ('t, 'r, 'e, 'p, 'h) TidesBase \<Rightarrow> 't list \<Rightarrow> Vector3d list \<Rightarrow> 'r list \<Rightarrow> 'e \<Rightarrow> 'p
     \<Rightarrow> real list \<Rightarrow> real list \<Rightarrow> real list \<Rightarrow> Vector3d list list
     \<Rightarrow> exception + Vector3d list list" where
  "TidesBase_deformation_batch lib self time point rotEarth rotation ephemerides gravity' hn ln' disp =
     (if length time = 0 \<or> length point = 0 then Inr disp
      else
        (case batch_matrix lib self time point rotEarth rotation ephemerides gravity' hn ln' of
           Inl e \<Rightarrow> Inl e
         | Inr A \<Rightarrow>
             for_each [0..<length time]
               (\<lambda>i disp'.
                  case epoch_Ax lib self time rotEarth rotation ephemerides A i of
                    Inl e \<Rightarrow> Inl e
                  | Inr Ax \<Rightarrow> for_each [0..<length point] (add_displacement i Ax) disp')
               disp))"

text \<open>
  What the batch deformation of the base class adds for the point \<open>k\<close> at the epoch \<open>i\<close>:
  the entries for \<open>k\<close> of the product of the matrix with the coefficients of the epoch.
\<close>

definition TidesBase_displacement ::
  "'h Harmonics \<Rightarrow> ('t, 'r, 'e, 'p, 'h) TidesBase \<Rightarrow> 't list \<Rightarrow> Vector3d list \<Rightarrow> 'r list \<Rightarrow> 'e \<Rightarrow> 'p
     \<Rightarrow> real list \<Rightarrow> real list \<Rightarrow> real list \<Rightarrow> nat \<Rightarrow> nat \<Rightarrow> exception + Vector3d" where
  "TidesBase_displacement lib self time point rotEarth rotation ephemerides gravity' hn ln' k i =
     (case batch_matrix lib self time point rotEarth rotation ephemerides gravity' hn ln' of
        Inl e \<Rightarrow> Inl e
      | Inr A \<Rightarrow>
          (case epoch_Ax lib self time rotEarth rotation ephemerides A i of
             Inl e \<Rightarrow> Inl e
           | Inr Ax \<Rightarrow> Inr (displacement_of Ax k)))"

subsection \<open>Notions used in the statements and proofs\<close>

text \<open>The sum of two results: the first exception, or the sum of the two values.\<close>

definition plus_results :: "('a \<Rightarrow> 'a \<Rightarrow> 'a) \<Rightarrow> exception + 'a \<Rightarrow> exception + 'a \<Rightarrow> exception + 'a" where
  "plus_results add a b =
     (case a of Inl e \<Rightarrow> Inl e | Inr u \<Rightarrow> (case b of Inl e \<Rightarrow> Inl e | Inr v \<Rightarrow> Inr (add u v)))"

text \<open>A list of \<open>r\<close> rows of \<open>c\<close> entries each.\<close>

definition has_shape :: "nat \<Rightarrow> nat \<Rightarrow> real list list \<Rightarrow> bool" where
  "has_shape r c E = (length E = r \<and> list_all (\<lambda>row. length row = c) E)"

text \<open>The three entries of the column \<open>c\<close> that belong to the point \<open>k\<close>.\<close>

definition entries_of_point :: "Matrix \<Rightarrow> nat \<Rightarrow> nat \<Rightarrow> Vector3d" where
  "entries_of_point A k c =
     Vector3d (Matrix_elements A ! (3 * k + 0) ! c) (Matrix_elements A ! (3 * k + 1) ! c)
              (Matrix_elements A ! (3 * k + 2) ! c)"

definition entries_of_rows :: "real list list \<Rightarrow> nat \<Rightarrow> nat \<Rightarrow> Vector3d" where
  "entries_of_rows E k c = Vector3d (E ! (3 * k + 0) ! c) (E ! (3 * k + 1) ! c) (E ! (3 * k + 2) ! c)"

text \<open>The three assignments of a vector to a column, on the list of the rows.\<close>

definition assign_rows :: "nat \<Rightarrow> real list list \<Rightarrow> nat \<times> Vector3d \<Rightarrow> real list list" where
  "assign_rows k E cd =
     assign_elements (assign_elements (assign_elements E (3 * k + 0) (fst cd) (vec_x (snd cd)))
                    (3 * k + 1) (fst cd) (vec_y (snd cd)))
            (3 * k + 2) (fst cd) (vec_z (snd cd))"

text \<open>The vectors of a list of columns none of which is an exception.\<close>

definition column_values :: "(nat \<times> (exception + Vector3d)) list \<Rightarrow> (nat \<times> Vector3d) list" where
  "column_values ws = map (\<lambda>cd. (fst cd, projr (snd cd))) ws"

text \<open>
  The degree \<open>n\<close> and the place \<open>j\<close> within the degree of every assignment of
  \<open>columns_of_point\<close>, in the same order: the column is \<open>n * n + j\<close>.
\<close>

definition positions :: "nat \<Rightarrow> (nat \<times> nat) list" where
  "positions maxDegree =
     map (\<lambda>n. (n, 0)) [0..<maxDegree + 1]
     @ concat (map (\<lambda>m. concat (map (\<lambda>n. [(n, 2 * m - 1), (n, 2 * m)]) [m..<maxDegree + 1]))
         [1..<maxDegree + 1])"

text \<open>
  The array \<open>disp'\<close> is the array \<open>disp\<close> with the vectors \<open>D k i\<close> added, one after the other,
  to the entry of the point \<open>k\<close> at the epoch \<open>i\<close> for the pairs in \<open>S\<close>, and is \<open>disp\<close>
  elsewhere.
\<close>

definition added ::
  "(nat \<times> nat) set \<Rightarrow> (nat \<Rightarrow> nat \<Rightarrow> Vector3d list) \<Rightarrow> Vector3d list list \<Rightarrow> Vector3d list list \<Rightarrow> bool" where
  "added S D disp disp' =
     (length disp' = length disp \<and>
      (\<forall>k<length disp. length (disp' ! k) = length (disp ! k) \<and>
         (\<forall>i<length (disp ! k).
            disp' ! k ! i = (if (k, i) \<in> S then foldl vadd (disp ! k ! i) (D k i) else disp ! k ! i))))"

text \<open>The value of a result as a list of one increment; nothing for an exception.\<close>

fun increments :: "exception + Vector3d \<Rightarrow> Vector3d list" where
  "increments (Inr d) = [d]"
| "increments (Inl e) = []"


section \<open>A worked example: two samples and a leap second between them\<close>

text \<open>
  Collaborators on which the model can be run. \<^verbatim>\<open>Time\<close> is a number of seconds; a modified
  Julian date is a number of days. GPS time is 17 s ahead of UTC before the UTC instant
  43200 and 18 s ahead from then on. The file \<^verbatim>\<open>eop.txt\<close> has two rows, one day apart, with
  UT1-UTC = 0.1 s before and 1.2 s after the leap second. The interpolator of the example
  joins two samples by a straight line and refuses any other table. The short period
  models and the ERFA routines return constants.
\<close>

definition example_file :: "EOPFileRow list" where
  "example_file =
     [(0, \<lparr>col_xp = 3600, col_yp = 7200, col_deltaUT = 1/10, col_LOD = 1/1000, col_dX = 36, col_dY = 72\<rparr>),
      (1, \<lparr>col_xp = 3600, col_yp = 7200, col_deltaUT = 12/10, col_LOD = 1/1000, col_dX = 36, col_dY = 72\<rparr>)]"

text \<open>The point at the fraction \<open>w\<close> of the way from row \<open>a\<close> to row \<open>b\<close>.\<close>

definition linear_row :: "real \<Rightarrow> EOPRow \<Rightarrow> EOPRow \<Rightarrow> EOPRow" where
  "linear_row w a b =
     \<lparr>col_xp = (1 - w) * col_xp a + w * col_xp b,
      col_yp = (1 - w) * col_yp a + w * col_yp b,
      col_deltaUT = (1 - w) * col_deltaUT a + w * col_deltaUT b,
      col_LOD = (1 - w) * col_LOD a + w * col_LOD b,
      col_dX = (1 - w) * col_dX a + w * col_dX b,
      col_dY = (1 - w) * col_dY a + w * col_dY b\<rparr>"

fun example_interpolate :: "nat option \<Rightarrow> real \<Rightarrow> real list \<Rightarrow> EOPRow list \<Rightarrow> string + EOPRow" where
  "example_interpolate (Some d) t [t0, t1] [a, b] = Inr (linear_row ((t - t0) / (t1 - t0)) a b)"
| "example_interpolate _ _ _ _ = Inl ''not enough points''"

definition example_collaborators :: "bool \<Rightarrow> real Collaborators" where
  "example_collaborators nolib =
     \<lparr>NOLIB_ERFA = nolib,
      DEG2RAD = pi / 180,
      readFileEarthOrientationParameter = (\<lambda>name. if name = ''eop.txt'' then Inr example_file else Inl ''file not found''),
      mjd2time = (\<lambda>m. m * 86400),
      timeUTC2GPS = (\<lambda>t. if t < 43200 then t + 17 else t + 18),
      timeGPS2UTC = (\<lambda>t. if t < 43218 then t - 17 else t - 18),
      timeGPS2TT = (\<lambda>t. t + 19),
      time_minus = (\<lambda>a b. a - b),
      seconds = (\<lambda>t. t),
      mjd = (\<lambda>t. t / 86400),
      mjdInt = (\<lambda>t. \<lfloor>t / 86400\<rfloor>),
      mjdMod = (\<lambda>t. t / 86400 - of_int \<lfloor>t / 86400\<rfloor>),
      dateTimeStr = (\<lambda>t. ''t''),
      interpolate = example_interpolate,
      ortho_eop = (\<lambda>m. (100, 200, 300)),
      pmsdnut2 = (\<lambda>m. (10, 20)),
      utlibr = (\<lambda>m. (5, 7)),
      eraSp00 = (\<lambda>a b. 1),
      eraXys00b = (\<lambda>a b. (2, 3, 4)),
      eraXy06 = (\<lambda>a b. (5, 6)),
      eraS06 = (\<lambda>a b x y. 7)\<rparr>"

text \<open>The configuration with the given file name, not in schema mode.\<close>

definition example_config :: "string \<Rightarrow> Config" where
  "example_config name = \<lparr>eopName = name, cfg_useTruncated = False, isCreateSchema = False\<rparr>"


text \<open>The members after the constructor has read \<^verbatim>\<open>eop.txt\<close>.\<close>

definition example_members :: "real EarthRotationIers2010" where
  "example_members =
     \<lparr>times' = [0, 86400],
      EOP = [\<lparr>col_xp = 3600 * (pi / 180 / 3600), col_yp = 7200 * (pi / 180 / 3600), col_deltaUT = 1/10 - 17, col_LOD = 1/1000,
              col_dX = 36 * (pi / 180 / 3600), col_dY = 72 * (pi / 180 / 3600)\<rparr>,
             \<lparr>col_xp = 3600 * (pi / 180 / 3600), col_yp = 7200 * (pi / 180 / 3600), col_deltaUT = 12/10 - 18, col_LOD = 1/1000,
              col_dX = 36 * (pi / 180 / 3600), col_dY = 72 * (pi / 180 / 3600)\<rparr>],
      polynomial = Some 3, useTruncated = False\<rparr>"

text \<open>The output \<^verbatim>\<open>deltaUT\<close> of the example as a function of the query time.\<close>

definition example_deltaUT :: "real \<Rightarrow> real" where
  "example_deltaUT timeGPS =
     (case earthOrientationParameter (example_collaborators False) example_members timeGPS of
        Inl e \<Rightarrow> 0 | Inr out \<Rightarrow> out_deltaUT out)"


text \<open>
  Collaborators for the tides. A field of the example has a \<^verbatim>\<open>GM\<close>, a maximum degree and a
  vector of coefficients; \<^verbatim>\<open>R\<close> is 1, and \<^verbatim>\<open>CnmSnm\<close> gives 1 for the cosine coefficients of
  degree 0 and 0 for all others.
\<close>

record ExampleField =
  field_GM :: real
  field_maxDegree :: nat
  field_x :: "real list"

definition example_harmonics :: "ExampleField Harmonics" where
  "example_harmonics =
     \<lparr>SphericalHarmonics_new = \<lparr>field_GM = 1, field_maxDegree = 0, field_x = [0]\<rparr>,
      harmonics_plus = (\<lambda>a b. \<lparr>field_GM = field_GM a,
                                field_maxDegree = max (field_maxDegree a) (field_maxDegree b),
                                field_x = map2 (+) (field_x a) (field_x b)\<rparr>),
      harmonics_GM = field_GM,
      harmonics_R = (\<lambda>h. 1),
      harmonics_maxDegree = field_maxDegree,
      harmonics_x = field_x,
      CnmSnm = (\<lambda>p degree. ((\<lambda>n m. if n = 0 then 1 else 0), (\<lambda>n m. 0))),
      default_maxDegree = 0,
      default_minDegree = 0,
      default_GM = 1,
      default_R = 1\<rparr>"

text \<open>
  A tide with the given field at every time (the time is a number), first with nothing but
  its harmonics, then with the batch deformation of the base class.
\<close>

definition example_tide_virtual ::
  "(nat \<Rightarrow> ExampleField) \<Rightarrow> (nat, unit, unit, unit, ExampleField) TidesBase" where
  "example_tide_virtual field =
     \<lparr>potential = (\<lambda>t p r e ep. Inr 1),
      radialGradient = (\<lambda>t p r e ep. Inr 2),
      gravity = (\<lambda>t p r e ep. Inr (Vector3d 1 2 3)),
      gravityGradient = (\<lambda>t p r e ep. Inr (Tensor3d 1 2 3 4 5 6)),
      deformation = (\<lambda>t p r e ep g hn ln'. Inl (CollaboratorError ''pure virtual'')),
      deformation_batch = (\<lambda>t p r e ep g hn ln' disp. Inl (CollaboratorError ''pure virtual'')),
      sphericalHarmonics = (\<lambda>t r e ep maxDegree minDegree GM R. Inr (field t))\<rparr>"

definition example_tide_of ::
  "(nat \<Rightarrow> ExampleField) \<Rightarrow> (nat, unit, unit, unit, ExampleField) TidesBase" where
  "example_tide_of field =
     (example_tide_virtual field)
       \<lparr>deformation_batch :=
          TidesBase_deformation_batch example_harmonics (example_tide_virtual field)\<rparr>"

text \<open>A tide of degree 0 whose one coefficient is 3 plus the time, with \<^verbatim>\<open>GM\<close> = 1.\<close>

definition example_tide :: "(nat, unit, unit, unit, ExampleField) TidesBase" where
  "example_tide =
     example_tide_of (\<lambda>t. \<lparr>field_GM = 1, field_maxDegree = 0, field_x = [3 + real t]\<rparr>)"

text \<open>
  A tide with the same value at every time and point: the potential and the radial
  gradient are \<open>v\<close>, the acceleration is \<open>(v, 2, 3)\<close> and the gradient has the entries \<open>v\<close>,
  2, 3, 4, 5 and 6.
\<close>

definition example_constant_tide :: "real \<Rightarrow> (nat, unit, unit, unit, ExampleField) TidesBase" where
  "example_constant_tide v =
     \<lparr>potential = (\<lambda>t p r e ep. Inr v),
      radialGradient = (\<lambda>t p r e ep. Inr v),
      gravity = (\<lambda>t p r e ep. Inr (Vector3d v 2 3)),
      gravityGradient = (\<lambda>t p r e ep. Inr (Tensor3d v 2 3 4 5 6)),
      deformation = (\<lambda>t p r e ep g hn ln'. Inl (CollaboratorError ''pure virtual'')),
      deformation_batch = (\<lambda>t p r e ep g hn ln' disp. Inl (CollaboratorError ''pure virtual'')),
      sphericalHarmonics = (\<lambda>t r e ep maxDegree minDegree GM R. Inl (CollaboratorError ''pure virtual''))\<rparr>"

text \<open>The numbers that the literals \<^verbatim>\<open>0.1\<close>, \<^verbatim>\<open>0.2\<close> and \<^verbatim>\<open>0.3\<close> are as a \<^verbatim>\<open>Double\<close>.\<close>

definition Double_01 :: real where "Double_01 = binary64 (1 / 10)"
definition Double_02 :: real where "Double_02 = binary64 (2 / 10)"
definition Double_03 :: real where "Double_03 = binary64 (3 / 10)"

section \<open>Properties of the Earth rotation class\<close>

subsection \<open>What the constructor leaves behind\<close>

lemma new_EOP_rows:
  "map (scale_columns ext)
     (map2 (UT1_UTC_to_UT1_GPS ext) (map (\<lambda>row. mjd2time ext (fst row)) rows) (map snd rows)) =
   map (\<lambda>row. scale_columns ext (UT1_UTC_to_UT1_GPS ext (mjd2time ext (fst row)) (snd row))) rows"
  by (induction rows) simp_all

text \<open>
  A constructor that returns has either left the members as they were (schema mode, or no
  file name) or has read the file, with ERFA present.
\<close>

lemma new_initial:
  assumes "EarthRotationIers2010_new ext config = Inr self"
    and "isCreateSchema config \<or> eopName config = []"
  shows "self = members_initial config"
  using assms unfolding EarthRotationIers2010_new_def
  by (auto split: if_splits)

lemma new_from_file:
  assumes "EarthRotationIers2010_new ext config = Inr self"
    and "\<not> isCreateSchema config" and "eopName config \<noteq> []"
  shows "\<not> NOLIB_ERFA ext"
    and "\<exists>rows. readFileEarthOrientationParameter ext (eopName config) = Inr rows \<and>
             times' self = map (\<lambda>row. mjd2time ext (fst row)) rows \<and>
             EOP self = map (\<lambda>row. scale_columns ext
                          (UT1_UTC_to_UT1_GPS ext (mjd2time ext (fst row)) (snd row))) rows \<and>
             polynomial self = Some 3 \<and> useTruncated self = cfg_useTruncated config"
  using assms unfolding EarthRotationIers2010_new_def Let_def new_EOP_rows
  by (auto split: if_splits sum.splits)

lemma new_loaded:
  assumes "EarthRotationIers2010_new ext config = Inr self" and "EOP self \<noteq> []"
  shows "\<not> NOLIB_ERFA ext" and "times' self \<noteq> []"
proof -
  have c: "\<not> isCreateSchema config \<and> eopName config \<noteq> []"
    using new_initial [OF assms(1)] assms(2) by (auto simp: members_initial_def)
  then show "\<not> NOLIB_ERFA ext"
    using new_from_file(1) [OF assms(1)] by simp
  from c new_from_file(2) [OF assms(1)] assms(2) show "times' self \<noteq> []"
    by auto
qed

subsection \<open>Queries outside the covered interval\<close>

text \<open>
  Claim C1. The series has been loaded by the constructor and is not empty. A query whose
  UTC time lies before the first or after the last sample time fails with the exception
  \<^verbatim>\<open>No EOPs available\<close> (the spec's \<^verbatim>\<open>OutOfRangeError\<close>), so nothing is extrapolated; a
  query whose UTC time lies in the closed interval between the two never fails with that
  exception.
\<close>

theorem query_outside_coverage_fails:
  fixes ext :: "('t::linorder) Collaborators"
  assumes "EarthRotationIers2010_new ext config = Inr self" and "EOP self \<noteq> []"
  shows "(timeGPS2UTC ext timeGPS < hd (times' self) \<or> last (times' self) < timeGPS2UTC ext timeGPS
            \<longrightarrow> earthOrientationParameter ext self timeGPS =
                  Inl (OutOfRangeError (''No EOPs available: '' @ dateTimeStr ext timeGPS)))
       \<and> (hd (times' self) \<le> timeGPS2UTC ext timeGPS \<and> timeGPS2UTC ext timeGPS \<le> last (times' self)
            \<longrightarrow> \<not> isOutOfRangeError (earthOrientationParameter ext self timeGPS))"
proof -
  from new_loaded [OF assms] obtain t0 ts where lib: "\<not> NOLIB_ERFA ext" and ts: "times' self = t0 # ts"
    by (cases "times' self") auto
  show ?thesis
    using lib ts assms(2)
    by (auto simp: earthOrientationParameter_def interpolate_EOP_def Let_def split: sum.splits)
qed

text \<open>The example: the constructor on \<^verbatim>\<open>eop.txt\<close>, and three queries.\<close>

lemma example_new:
  "EarthRotationIers2010_new (example_collaborators False) (example_config ''eop.txt'') =
     Inr \<lparr>times' = [0, 86400],
          EOP = [\<lparr>col_xp = 3600 * (pi / 180 / 3600), col_yp = 7200 * (pi / 180 / 3600), col_deltaUT = 1/10 - 17, col_LOD = 1/1000,
                  col_dX = 36 * (pi / 180 / 3600), col_dY = 72 * (pi / 180 / 3600)\<rparr>,
                 \<lparr>col_xp = 3600 * (pi / 180 / 3600), col_yp = 7200 * (pi / 180 / 3600), col_deltaUT = 12/10 - 18, col_LOD = 1/1000,
                  col_dX = 36 * (pi / 180 / 3600), col_dY = 72 * (pi / 180 / 3600)\<rparr>],
          polynomial = Some 3, useTruncated = False\<rparr>"
  by (simp add: EarthRotationIers2010_new_def example_collaborators_def example_config_def example_file_def
      UT1_UTC_to_UT1_GPS_def scale_columns_def)

lemma example_new': "EarthRotationIers2010_new (example_collaborators False) (example_config ''eop.txt'') = Inr example_members"
  by (simp add: example_new example_members_def)

theorem query_outside_coverage_fails_witness:
  "EarthRotationIers2010_new (example_collaborators False) (example_config ''eop.txt'') = Inr example_members
   \<and> EOP example_members \<noteq> []
   \<and> earthOrientationParameter (example_collaborators False) example_members (-100) =
       Inl (OutOfRangeError ''No EOPs available: t'')
   \<and> earthOrientationParameter (example_collaborators False) example_members 100000 =
       Inl (OutOfRangeError ''No EOPs available: t'')
   \<and> \<not> isOutOfRangeError (earthOrientationParameter (example_collaborators False) example_members 21617)"
proof -
  have new: "EarthRotationIers2010_new (example_collaborators False) (example_config ''eop.txt'') = Inr example_members"
    by (rule example_new')
  have ne: "EOP example_members \<noteq> []"
    by (simp add: example_members_def)
  note th = query_outside_coverage_fails [OF new ne]
  have a: "earthOrientationParameter (example_collaborators False) example_members (-100) =
       Inl (OutOfRangeError ''No EOPs available: t'')"
    using th [of "-100"] by (simp add: example_collaborators_def example_members_def)
  have b: "earthOrientationParameter (example_collaborators False) example_members 100000 =
       Inl (OutOfRangeError ''No EOPs available: t'')"
    using th [of 100000] by (simp add: example_collaborators_def example_members_def)
  have c: "\<not> isOutOfRangeError (earthOrientationParameter (example_collaborators False) example_members 21617)"
    using th [of 21617] by (simp add: example_collaborators_def example_members_def)
  from new ne a b c show ?thesis by blast
qed

subsection \<open>A build without ERFA\<close>

text \<open>
  Claim C5 says that without the library only the queries fail and that a constructor
  without a file name succeeds. The constructor throws under \<^verbatim>\<open>#ifdef NOLIB_ERFA\<close> before
  it looks at the file name: in the example, with no file name and outside schema mode,
  the construction itself fails.
\<close>

theorem construction_without_file_fails_without_ERFA:
  "EarthRotationIers2010_new (example_collaborators True) (example_config '''') = Inl MissingDependencyError"
  by (simp add: EarthRotationIers2010_new_def example_collaborators_def example_config_def)

text \<open>
  Claim C5, as the code has it. In a build without ERFA the constructor fails with the
  missing dependency exception for every configuration outside schema mode, with or without
  a file name (in schema mode it returns before the check, the members untouched), and
  every call of \<^verbatim>\<open>earthOrientationParameter\<close> fails with that exception.
\<close>

theorem without_ERFA_everything_fails:
  fixes ext :: "('t::linorder) Collaborators"
  assumes "NOLIB_ERFA ext"
  shows "(\<not> isCreateSchema config \<longrightarrow> EarthRotationIers2010_new ext config = Inl MissingDependencyError)
       \<and> (isCreateSchema config \<longrightarrow> EarthRotationIers2010_new ext config = Inr (members_initial config))
       \<and> earthOrientationParameter ext self timeGPS = Inl MissingDependencyError"
  using assms by (simp add: EarthRotationIers2010_new_def earthOrientationParameter_def)

theorem without_ERFA_everything_fails_witness:
  "NOLIB_ERFA (example_collaborators True)
   \<and> \<not> isCreateSchema (example_config ''eop.txt'')
   \<and> EarthRotationIers2010_new (example_collaborators True) (example_config ''eop.txt'') = Inl MissingDependencyError
   \<and> earthOrientationParameter (example_collaborators True) example_members 21617 = Inl MissingDependencyError"
proof -
  have n: "NOLIB_ERFA (example_collaborators True)"
    by (simp add: example_collaborators_def)
  have s: "\<not> isCreateSchema (example_config ''eop.txt'')"
    by (simp add: example_config_def)
  from without_ERFA_everything_fails [OF n, of "example_config ''eop.txt''" example_members 21617] n s
  show ?thesis by simp
qed

subsection \<open>The outputs, field by field\<close>

lemma models_fields:
  "out_xp (models ext tr t eop) =
     col_xp eop + fst (ortho_eop ext (mjd ext (timeGPS2UTC ext t))) * micro * DEG2RAD ext / 3600
       + fst (pmsdnut2 ext (mjd ext (timeGPS2UTC ext t))) * micro * DEG2RAD ext / 3600"
  "out_yp (models ext tr t eop) =
     col_yp eop + fst (snd (ortho_eop ext (mjd ext (timeGPS2UTC ext t)))) * micro * DEG2RAD ext / 3600
       + snd (pmsdnut2 ext (mjd ext (timeGPS2UTC ext t))) * micro * DEG2RAD ext / 3600"
  "out_deltaUT (models ext tr t eop) =
     col_deltaUT eop + snd (snd (ortho_eop ext (mjd ext (timeGPS2UTC ext t)))) * micro
       + fst (utlibr ext (mjd ext (timeGPS2UTC ext t))) * micro"
  "out_LOD (models ext tr t eop) =
     col_LOD eop + snd (utlibr ext (mjd ext (timeGPS2UTC ext t))) * micro"
  "out_sp (models ext tr t eop) =
     eraSp00 ext (2400000.5 + real_of_int (mjdInt ext (timeGPS2TT ext t))) (mjdMod ext (timeGPS2TT ext t))"
  "out_X (models ext tr t eop) =
     fst (precession_nutation ext tr (2400000.5 + real_of_int (mjdInt ext (timeGPS2TT ext t)))
            (mjdMod ext (timeGPS2TT ext t))) + col_dX eop"
  "out_Y (models ext tr t eop) =
     fst (snd (precession_nutation ext tr (2400000.5 + real_of_int (mjdInt ext (timeGPS2TT ext t)))
            (mjdMod ext (timeGPS2TT ext t)))) + col_dY eop"
  "out_S (models ext tr t eop) =
     snd (snd (precession_nutation ext tr (2400000.5 + real_of_int (mjdInt ext (timeGPS2TT ext t)))
            (mjdMod ext (timeGPS2TT ext t))))"
  by (simp_all add: models_def Let_def split: prod.splits)

lemma query_empty_series:
  assumes "\<not> NOLIB_ERFA ext" and "EOP self = []"
  shows "earthOrientationParameter ext self timeGPS = Inr (models ext (useTruncated self) timeGPS zero_row)"
  using assms by (simp add: earthOrientationParameter_def interpolate_EOP_def)

lemma query_in_coverage:
  fixes ext :: "('t::linorder) Collaborators"
  assumes "\<not> NOLIB_ERFA ext" and "times' self \<noteq> []" and "EOP self \<noteq> []"
    and "hd (times' self) \<le> timeGPS2UTC ext timeGPS" and "timeGPS2UTC ext timeGPS \<le> last (times' self)"
  shows "earthOrientationParameter ext self timeGPS =
     (case interpolate ext (polynomial self) (timeGPS2UTC ext timeGPS) (times' self) (EOP self) of
        Inl msg \<Rightarrow> Inl (CollaboratorError msg)
      | Inr eop \<Rightarrow>
          Inr (models ext (useTruncated self) timeGPS
                 (eop\<lparr>col_deltaUT := col_deltaUT eop
                    + seconds ext (time_minus ext timeGPS (timeGPS2UTC ext timeGPS))\<rparr>)))"
proof -
  from assms(2) obtain t0 ts where ts: "times' self = t0 # ts"
    by (cases "times' self") auto
  show ?thesis
    using assms ts
    by (auto simp: earthOrientationParameter_def interpolate_EOP_def Let_def split: sum.splits)
qed

subsection \<open>A query without a series\<close>

text \<open>
  Claim C9. The class has been constructed without a file name, in a build with ERFA. Then
  a query returns for every time, so never with the out of range exception; the pole
  coordinates, \<^verbatim>\<open>deltaUT\<close> and \<^verbatim>\<open>LOD\<close> are the sums of the short period models alone, \<^verbatim>\<open>sp\<close>
  is the value of \<^verbatim>\<open>eraSp00\<close>, and \<^verbatim>\<open>X\<close>, \<^verbatim>\<open>Y\<close>, \<^verbatim>\<open>S\<close> are the values of the precession and
  nutation routines with nothing added.
\<close>

theorem query_without_file:
  fixes ext :: "('t::linorder) Collaborators"
  assumes "EarthRotationIers2010_new ext config = Inr self" and "eopName config = []"
    and "\<not> NOLIB_ERFA ext"
  shows "\<exists>out. earthOrientationParameter ext self timeGPS = Inr out
     \<and> \<not> isOutOfRangeError (earthOrientationParameter ext self timeGPS)
     \<and> out_xp out = fst (ortho_eop ext (mjd ext (timeGPS2UTC ext timeGPS))) * micro * DEG2RAD ext / 3600
                     + fst (pmsdnut2 ext (mjd ext (timeGPS2UTC ext timeGPS))) * micro * DEG2RAD ext / 3600
     \<and> out_yp out = fst (snd (ortho_eop ext (mjd ext (timeGPS2UTC ext timeGPS)))) * micro * DEG2RAD ext / 3600
                     + snd (pmsdnut2 ext (mjd ext (timeGPS2UTC ext timeGPS))) * micro * DEG2RAD ext / 3600
     \<and> out_deltaUT out = snd (snd (ortho_eop ext (mjd ext (timeGPS2UTC ext timeGPS)))) * micro
                     + fst (utlibr ext (mjd ext (timeGPS2UTC ext timeGPS))) * micro
     \<and> out_LOD out = snd (utlibr ext (mjd ext (timeGPS2UTC ext timeGPS))) * micro
     \<and> out_sp out = eraSp00 ext (2400000.5 + real_of_int (mjdInt ext (timeGPS2TT ext timeGPS)))
                       (mjdMod ext (timeGPS2TT ext timeGPS))
     \<and> (out_X out, out_Y out, out_S out) =
         precession_nutation ext (cfg_useTruncated config)
           (2400000.5 + real_of_int (mjdInt ext (timeGPS2TT ext timeGPS)))
           (mjdMod ext (timeGPS2TT ext timeGPS))"
proof -
  from new_initial [OF assms(1)] assms(2) have self: "self = members_initial config"
    by simp
  then have empty: "EOP self = []" and tr: "useTruncated self = cfg_useTruncated config"
    by (simp_all add: members_initial_def)
  have q: "earthOrientationParameter ext self timeGPS =
      Inr (models ext (cfg_useTruncated config) timeGPS zero_row)"
    using query_empty_series [OF assms(3) empty] tr by simp
  show ?thesis
    unfolding q by (simp add: models_fields zero_row_def)
qed

theorem query_without_file_witness:
  "EarthRotationIers2010_new (example_collaborators False) (example_config '''')
     = Inr (members_initial (example_config ''''))
   \<and> eopName (example_config '''') = []
   \<and> \<not> NOLIB_ERFA (example_collaborators False)
   \<and> (\<exists>out. earthOrientationParameter (example_collaborators False)
               (members_initial (example_config '''')) 21617 = Inr out
          \<and> out_deltaUT out = 305 / 10 ^ 6 \<and> out_LOD out = 7 / 10 ^ 6 \<and> out_sp out = 1
          \<and> out_X out = 5 \<and> out_Y out = 6 \<and> out_S out = 7)"
proof -
  have a: "EarthRotationIers2010_new (example_collaborators False) (example_config '''')
     = Inr (members_initial (example_config ''''))"
    by (simp add: EarthRotationIers2010_new_def example_collaborators_def example_config_def)
  have b: "eopName (example_config '''') = []"
    by (simp add: example_config_def)
  have c: "\<not> NOLIB_ERFA (example_collaborators False)"
    by (simp add: example_collaborators_def)
  from query_without_file [OF a b c, of 21617] obtain out where
    "earthOrientationParameter (example_collaborators False)
               (members_initial (example_config '''')) 21617 = Inr out"
    "out_deltaUT out = 305 / 10 ^ 6" "out_LOD out = 7 / 10 ^ 6" "out_sp out = 1"
    "out_X out = 5" "out_Y out = 6" "out_S out = 7"
    by (auto simp: example_collaborators_def example_config_def precession_nutation_def)
  with a b c show ?thesis by blast
qed

subsection \<open>Units\<close>



subsection \<open>The offset between UTC and GPS in the column of UT1-UTC\<close>

text \<open>
  Claim C4, as the code has it. After the constructor has read a file, the stored column
  of every sample is the value of the file less \<^verbatim>\<open>(timeUTC2GPS(t)-t).seconds()\<close> at the
  sample time \<open>t\<close>. A query within the covered interval, when the interpolator returns a
  row, returns as \<^verbatim>\<open>deltaUT\<close> the interpolated stored value plus
  \<^verbatim>\<open>(timeGPS-timeUTC).seconds()\<close> at the query time, plus the ocean tide and the libration
  model, each times \<^verbatim>\<open>1e-6\<close>.
\<close>

theorem deltaUT_offset_removed_and_added_back:
  fixes ext :: "('t::linorder) Collaborators"
  assumes "EarthRotationIers2010_new ext config = Inr self"
    and "\<not> isCreateSchema config" and "eopName config \<noteq> []"
  shows "\<exists>rows. readFileEarthOrientationParameter ext (eopName config) = Inr rows
     \<and> times' self = map (\<lambda>r. mjd2time ext (fst r)) rows
     \<and> map col_deltaUT (EOP self) =
           map (\<lambda>r. col_deltaUT (snd r)
                  - seconds ext (time_minus ext (timeUTC2GPS ext (mjd2time ext (fst r)))
                                   (mjd2time ext (fst r)))) rows
     \<and> (EOP self \<noteq> [] \<and> hd (times' self) \<le> timeGPS2UTC ext timeGPS
           \<and> timeGPS2UTC ext timeGPS \<le> last (times' self) \<longrightarrow>
         (case interpolate ext (Some 3) (timeGPS2UTC ext timeGPS) (times' self) (EOP self) of
            Inl msg \<Rightarrow> earthOrientationParameter ext self timeGPS = Inl (CollaboratorError msg)
          | Inr eop \<Rightarrow>
             (\<exists>out. earthOrientationParameter ext self timeGPS = Inr out
                \<and> out_deltaUT out =
                     col_deltaUT eop
                     + seconds ext (time_minus ext timeGPS (timeGPS2UTC ext timeGPS))
                     + snd (snd (ortho_eop ext (mjd ext (timeGPS2UTC ext timeGPS)))) * micro
                     + fst (utlibr ext (mjd ext (timeGPS2UTC ext timeGPS))) * micro)))"
proof -
  have lib: "\<not> NOLIB_ERFA ext"
    by (rule new_from_file(1) [OF assms])
  from new_from_file(2) [OF assms]
  obtain rows where rows: "readFileEarthOrientationParameter ext (eopName config) = Inr rows"
    and ts: "times' self = map (\<lambda>row. mjd2time ext (fst row)) rows"
    and eop: "EOP self = map (\<lambda>row. scale_columns ext
                 (UT1_UTC_to_UT1_GPS ext (mjd2time ext (fst row)) (snd row))) rows"
    and pol: "polynomial self = Some 3"
    by auto
  have load: "map col_deltaUT (EOP self) =
           map (\<lambda>r. col_deltaUT (snd r)
                  - seconds ext (time_minus ext (timeUTC2GPS ext (mjd2time ext (fst r)))
                                   (mjd2time ext (fst r)))) rows"
    by (simp add: eop scale_columns_def UT1_UTC_to_UT1_GPS_def)
  have query: "case interpolate ext (Some 3) (timeGPS2UTC ext timeGPS) (times' self) (EOP self) of
            Inl msg \<Rightarrow> earthOrientationParameter ext self timeGPS = Inl (CollaboratorError msg)
          | Inr eop \<Rightarrow>
             (\<exists>out. earthOrientationParameter ext self timeGPS = Inr out
                \<and> out_deltaUT out =
                     col_deltaUT eop
                     + seconds ext (time_minus ext timeGPS (timeGPS2UTC ext timeGPS))
                     + snd (snd (ortho_eop ext (mjd ext (timeGPS2UTC ext timeGPS)))) * micro
                     + fst (utlibr ext (mjd ext (timeGPS2UTC ext timeGPS))) * micro)"
    if "EOP self \<noteq> []" "hd (times' self) \<le> timeGPS2UTC ext timeGPS"
      "timeGPS2UTC ext timeGPS \<le> last (times' self)"
  proof -
    from that(1) have "times' self \<noteq> []" by (simp add: ts eop)
    from query_in_coverage [OF lib this that] show ?thesis
      by (simp add: pol models_fields split: sum.splits)
  qed
  from rows ts load query show ?thesis by blast
qed

theorem deltaUT_offset_removed_and_added_back_witness:
  "EarthRotationIers2010_new (example_collaborators False) (example_config ''eop.txt'') = Inr example_members
   \<and> \<not> isCreateSchema (example_config ''eop.txt'') \<and> eopName (example_config ''eop.txt'') \<noteq> []
   \<and> map col_deltaUT (EOP example_members) = [1 / 10 - 17, 12 / 10 - 18]
   \<and> (\<exists>out. earthOrientationParameter (example_collaborators False) example_members 21617 = Inr out
         \<and> out_deltaUT out = (3 / 4 * (1 / 10 - 17) + 1 / 4 * (12 / 10 - 18)) + 17 + 300 * micro + 5 * micro)"
proof -
  have a: "EarthRotationIers2010_new (example_collaborators False) (example_config ''eop.txt'') = Inr example_members"
    by (rule example_new')
  have b: "\<not> isCreateSchema (example_config ''eop.txt'')" and c: "eopName (example_config ''eop.txt'') \<noteq> []"
    by (simp_all add: example_config_def)
  have r: "readFileEarthOrientationParameter (example_collaborators False) (eopName (example_config ''eop.txt''))
             = Inr example_file"
    by (simp add: example_collaborators_def example_config_def)
  have i: "interpolate (example_collaborators False) (Some 3) (timeGPS2UTC (example_collaborators False) 21617)
             (times' example_members) (EOP example_members) =
           Inr (linear_row (1 / 4) (EOP example_members ! 0) (EOP example_members ! 1))"
    by (simp add: example_collaborators_def example_members_def)
  from deltaUT_offset_removed_and_added_back [OF a b c, of 21617] r i
  have "map col_deltaUT (EOP example_members) = [1 / 10 - 17, 12 / 10 - 18]"
    "\<exists>out. earthOrientationParameter (example_collaborators False) example_members 21617 = Inr out
         \<and> out_deltaUT out = (3 / 4 * (1 / 10 - 17) + 1 / 4 * (12 / 10 - 18)) + 17 + 300 * micro + 5 * micro"
    by (auto simp: example_file_def example_collaborators_def example_members_def linear_row_def)
  with a b c show ?thesis by blast
qed

text \<open>
  In the example the output \<^verbatim>\<open>deltaUT\<close> steps by almost a second at the GPS instant 43218,
  where \<^verbatim>\<open>timeGPS-timeUTC\<close> changes from 17 s to 18 s.
\<close>

lemma example_deltaUT_before:
  assumes "43217 \<le> g" and "g < 43218"
  shows "example_deltaUT g = 1 / 10 + (g - 17) / 864000 + 305 / 10 ^ 6"
  using assms
  by (simp add: example_deltaUT_def earthOrientationParameter_def interpolate_EOP_def
      example_collaborators_def example_members_def linear_row_def models_fields field_simps)

lemma example_deltaUT_at: "example_deltaUT 43218 = 23 / 20 + 305 / 10 ^ 6"
  by (simp add: example_deltaUT_def earthOrientationParameter_def interpolate_EOP_def
      example_collaborators_def example_members_def linear_row_def models_fields)

lemma example_deltaUT_step: "\<not> isCont example_deltaUT 43218"
proof
  assume "isCont example_deltaUT 43218"
  then have "\<forall>r>0. \<exists>s>0. \<forall>x. x \<noteq> 43218 \<and> norm (x - 43218) < s
      \<longrightarrow> norm (example_deltaUT x - example_deltaUT 43218) < r"
    unfolding isCont_def LIM_eq .
  then have "(0::real) < 1 / 2 \<longrightarrow> (\<exists>s>0. \<forall>x. x \<noteq> 43218 \<and> norm (x - 43218) < s
      \<longrightarrow> norm (example_deltaUT x - example_deltaUT 43218) < 1 / 2)"
    by (rule spec)
  then have "\<exists>s>0. \<forall>x. x \<noteq> 43218 \<and> norm (x - 43218) < s
      \<longrightarrow> norm (example_deltaUT x - example_deltaUT 43218) < 1 / 2"
    by simp
  then obtain s where s: "0 < s"
    and c: "\<And>x. x \<noteq> 43218 \<Longrightarrow> norm (x - 43218) < s
      \<Longrightarrow> norm (example_deltaUT x - example_deltaUT 43218) < 1 / 2"
    by blast
  define x where "x = 43218 - min (s / 2) (1 / 2)"
  have x: "43217 \<le> x" "x < 43218" "norm (x - 43218) < s"
    using s by (auto simp: x_def min_def)
  from c [OF _ x(3)] x(2) have "norm (example_deltaUT x - example_deltaUT 43218) < 1 / 2"
    by simp
  moreover have "example_deltaUT x - example_deltaUT 43218 = (x - 17) / 864000 - 21 / 20"
    by (simp add: example_deltaUT_before [OF x(1,2)] example_deltaUT_at)
  ultimately have "\<bar>(x - 17) / 864000 - 21 / 20\<bar> < 1 / 2"
    by simp
  with x(2) show False
    by (simp add: abs_less_iff field_simps)
qed

text \<open>
  Claim C4 says that the returned value is continuous across a leap second. In the example
  the leap second is at the GPS instant 43218, within the covered interval. The query half
  a second before it returns 0.150306 s, the query at it returns 1.150305 s, and the
  returned value, as a function of the query time, is not continuous there.
\<close>

theorem returned_deltaUT_steps_at_leap_second:
  "map_sum id out_deltaUT
     (earthOrientationParameter (example_collaborators False) example_members (43218 - 1 / 2))
     = Inr (1 / 10 + (43218 - 1 / 2 - 17) / 864000 + 305 / 10 ^ 6)
   \<and> map_sum id out_deltaUT
     (earthOrientationParameter (example_collaborators False) example_members 43218)
     = Inr (23 / 20 + 305 / 10 ^ 6)
   \<and> \<not> isCont example_deltaUT 43218"
proof -
  have "map_sum id out_deltaUT
     (earthOrientationParameter (example_collaborators False) example_members (43218 - 1 / 2))
     = Inr (1 / 10 + (43218 - 1 / 2 - 17) / 864000 + 305 / 10 ^ 6)"
    by (simp add: earthOrientationParameter_def interpolate_EOP_def
      example_collaborators_def example_members_def linear_row_def models_fields field_simps)
  moreover have "map_sum id out_deltaUT
     (earthOrientationParameter (example_collaborators False) example_members 43218)
     = Inr (23 / 20 + 305 / 10 ^ 6)"
    by (simp add: earthOrientationParameter_def interpolate_EOP_def
      example_collaborators_def example_members_def linear_row_def models_fields)
  ultimately show ?thesis
    using example_deltaUT_step by simp
qed

section \<open>Properties of the tides\<close>

subsection \<open>The sums of the aggregator\<close>

lemma for_each_add_values:
  "list_all2 (\<lambda>x v. f x = Inr v) xs vs \<Longrightarrow>
   for_each xs (\<lambda>x acc. add_to add (f x) acc) z = Inr (foldl add z vs)"
  by (induction xs vs arbitrary: z rule: list_all2_induct) (simp_all add: add_to_def)

lemma for_each_add_values_append:
  assumes "list_all2 (\<lambda>x v. f x = Inr v) xs vs" and "list_all2 (\<lambda>x v. f x = Inr v) ys ws"
  shows "for_each xs (\<lambda>x acc. add_to add (f x) acc) z = Inr (foldl add z vs)
     \<and> for_each ys (\<lambda>x acc. add_to add (f x) acc) z = Inr (foldl add z ws)
     \<and> for_each (xs @ ys) (\<lambda>x acc. add_to add (f x) acc) z = Inr (foldl add (foldl add z vs) ws)"
proof -
  from assms have "list_all2 (\<lambda>x v. f x = Inr v) (xs @ ys) (vs @ ws)"
    by (rule list_all2_appendI)
  from for_each_add_values [OF this] for_each_add_values [OF assms(1)] for_each_add_values [OF assms(2)]
  show ?thesis by simp
qed

lemma for_each_add_values_append_imp:
  "list_all2 (\<lambda>x v. f x = Inr v) xs vs \<and> list_all2 (\<lambda>x v. f x = Inr v) ys ws \<longrightarrow>
     for_each xs (\<lambda>x acc. add_to add (f x) acc) z = Inr (foldl add z vs)
     \<and> for_each ys (\<lambda>x acc. add_to add (f x) acc) z = Inr (foldl add z ws)
     \<and> for_each (xs @ ys) (\<lambda>x acc. add_to add (f x) acc) z = Inr (foldl add (foldl add z vs) ws)"
  using for_each_add_values_append [of f xs vs ys ws add z] by blast

text \<open>
  Claim C3, as the code has it. For two lists of tides \<open>A\<close> and \<open>B\<close> and the same time, point,
  rotation, rotation provider and ephemerides, when every tide returns a value: the
  potential, the radial gradient, the acceleration and the gradient of a list are the sum
  of the values of its tides, added from zero in the order of the list with the addition
  of \<^verbatim>\<open>Double\<close>; for the list \<open>A @ B\<close> that is the aggregate of \<open>A\<close> with the values of the
  tides of \<open>B\<close> added to it one after the other.
\<close>

theorem aggregates_are_sums_in_configuration_order:
  "(list_all2 (\<lambda>tide v. potential tide timeGPS point rotEarth rotation ephemerides = Inr v) A Va
    \<and> list_all2 (\<lambda>tide v. potential tide timeGPS point rotEarth rotation ephemerides = Inr v) B Vb \<longrightarrow>
      Tides_potential A timeGPS point rotEarth rotation ephemerides = Inr (foldl Double_plus 0 Va)
    \<and> Tides_potential B timeGPS point rotEarth rotation ephemerides = Inr (foldl Double_plus 0 Vb)
    \<and> Tides_potential (A @ B) timeGPS point rotEarth rotation ephemerides =
        Inr (foldl Double_plus (foldl Double_plus 0 Va) Vb))
   \<and> (list_all2 (\<lambda>tide v. radialGradient tide timeGPS point rotEarth rotation ephemerides = Inr v) A Ra
    \<and> list_all2 (\<lambda>tide v. radialGradient tide timeGPS point rotEarth rotation ephemerides = Inr v) B Rb \<longrightarrow>
      Tides_radialGradient A timeGPS point rotEarth rotation ephemerides = Inr (foldl Double_plus 0 Ra)
    \<and> Tides_radialGradient B timeGPS point rotEarth rotation ephemerides = Inr (foldl Double_plus 0 Rb)
    \<and> Tides_radialGradient (A @ B) timeGPS point rotEarth rotation ephemerides =
        Inr (foldl Double_plus (foldl Double_plus 0 Ra) Rb))
   \<and> (list_all2 (\<lambda>tide v. gravity tide timeGPS point rotEarth rotation ephemerides = Inr v) A Ga
    \<and> list_all2 (\<lambda>tide v. gravity tide timeGPS point rotEarth rotation ephemerides = Inr v) B Gb \<longrightarrow>
      Tides_acceleration A timeGPS point rotEarth rotation ephemerides =
        Inr (foldl Vector3d_plus (Vector3d 0 0 0) Ga)
    \<and> Tides_acceleration B timeGPS point rotEarth rotation ephemerides =
        Inr (foldl Vector3d_plus (Vector3d 0 0 0) Gb)
    \<and> Tides_acceleration (A @ B) timeGPS point rotEarth rotation ephemerides =
        Inr (foldl Vector3d_plus (foldl Vector3d_plus (Vector3d 0 0 0) Ga) Gb))
   \<and> (list_all2 (\<lambda>tide v. gravityGradient tide timeGPS point rotEarth rotation ephemerides = Inr v) A Ta
    \<and> list_all2 (\<lambda>tide v. gravityGradient tide timeGPS point rotEarth rotation ephemerides = Inr v) B Tb \<longrightarrow>
      Tides_gradient A timeGPS point rotEarth rotation ephemerides =
        Inr (foldl Tensor3d_plus (Tensor3d 0 0 0 0 0 0) Ta)
    \<and> Tides_gradient B timeGPS point rotEarth rotation ephemerides =
        Inr (foldl Tensor3d_plus (Tensor3d 0 0 0 0 0 0) Tb)
    \<and> Tides_gradient (A @ B) timeGPS point rotEarth rotation ephemerides =
        Inr (foldl Tensor3d_plus (foldl Tensor3d_plus (Tensor3d 0 0 0 0 0 0) Ta) Tb))"
  unfolding Tides_potential_def Tides_radialGradient_def Tides_acceleration_def Tides_gradient_def
    Vector3d_new_def Tensor3d_new_def
  by (intro conjI) (rule for_each_add_values_append_imp)+

subsection \<open>Sums of Double in the example\<close>

lemma bitlen_eqI:
  fixes n :: int and w :: nat
  assumes "2 ^ w \<le> n" and "n < 2 ^ (w + 1)"
  shows "bitlen n = int w + 1"
proof (rule antisym)
  show "bitlen n \<le> int w + 1"
    using assms(2) by (simp add: bitlen_le_iff_power nat_add_distrib)
  show "int w + 1 \<le> bitlen n"
    using assms(1) by (simp add: bitlen_ge_iff_power nat_add_distrib)
qed

lemma exponent_ge_one:
  fixes w :: nat
  assumes "2 ^ w \<le> \<bar>x\<bar>" and "\<bar>x\<bar> < 2 ^ (w + 1)"
  shows "exponent x = int w"
proof -
  have one: "1 \<le> \<bar>x\<bar>"
    using assms(1) one_le_power [of "2::real" w] by linarith
  have "(2::int) ^ w \<le> \<lfloor>\<bar>x\<bar>\<rfloor>"
    using assms(1) by (simp add: le_floor_iff)
  moreover have "\<lfloor>\<bar>x\<bar>\<rfloor> < 2 ^ (w + 1)"
    using assms(2) by (simp add: floor_less_iff)
  ultimately have "bitlen \<lfloor>\<bar>x\<bar>\<rfloor> = int w + 1"
    by (rule bitlen_eqI)
  with one show ?thesis by (simp add: exponent_def)
qed

lemma exponent_less_one:
  fixes w :: nat
  assumes "1 \<le> \<bar>x\<bar> * 2 ^ (w + 1)" and "\<bar>x\<bar> * 2 ^ (w + 1) < 2"
  shows "exponent x = - int (w + 1)"
proof -
  have pos: "0 < \<bar>x\<bar>"
    using assms(1) by (cases "x = 0") simp_all
  have lt: "\<bar>x\<bar> < 1"
  proof -
    have "\<bar>x\<bar> * 2 \<le> \<bar>x\<bar> * 2 ^ (w + 1)"
      using pos by simp
    with assms(2) show ?thesis by simp
  qed
  have up: "1 / \<bar>x\<bar> \<le> 2 ^ (w + 1)"
    using assms(1) pos by (simp add: field_simps)
  have lo: "2 ^ w < 1 / \<bar>x\<bar>"
    using assms(2) pos by (simp add: field_simps)
  have "\<lceil>1 / \<bar>x\<bar>\<rceil> \<le> 2 ^ (w + 1)"
    using up by (simp add: ceiling_le_iff)
  then have a: "\<lceil>1 / \<bar>x\<bar>\<rceil> - 1 < 2 ^ (w + 1)" by simp
  have "(2::int) ^ w < \<lceil>1 / \<bar>x\<bar>\<rceil>"
    using lo by (simp add: less_ceiling_iff)
  then have b: "2 ^ w \<le> \<lceil>1 / \<bar>x\<bar>\<rceil> - 1" by simp
  from bitlen_eqI [OF b a] lt show ?thesis
    by (simp add: exponent_def)
qed

lemma binary64_eval:
  fixes k :: nat
  assumes "2 ^ 52 \<le> \<bar>x\<bar> * 2 ^ k" and "\<bar>x\<bar> * 2 ^ k < 2 ^ 53" and "k \<le> 1074"
  shows "binary64 x = of_int (round_to_even (x * 2 ^ k)) / 2 ^ k"
proof -
  have x: "x \<noteq> 0" using assms(1) by auto
  have e: "exponent x = 52 - int k"
  proof (cases "k \<le> 52")
    case True
    define w where "w = 52 - k"
    have p: "(2::real) ^ 52 = 2 ^ w * 2 ^ k" "(2::real) ^ 53 = 2 ^ (w + 1) * 2 ^ k"
      using True by (simp_all add: w_def flip: power_add)
    from assms(1,2) have "2 ^ w \<le> \<bar>x\<bar>" "\<bar>x\<bar> < 2 ^ (w + 1)"
      unfolding p by simp_all
    from exponent_ge_one [OF this] True show ?thesis by (simp add: w_def)
  next
    case False
    define w where "w = k - 53"
    have k: "k = 52 + (w + 1)" using False by (simp add: w_def)
    have p: "(2::real) ^ k = 2 ^ 52 * 2 ^ (w + 1)"
      unfolding k by (simp only: power_add)
    from assms(1,2) have "1 \<le> \<bar>x\<bar> * 2 ^ (w + 1)" "\<bar>x\<bar> * 2 ^ (w + 1) < 2"
      unfolding p by simp_all
    from exponent_less_one [OF this] show ?thesis by (simp add: k)
  qed
  have m: "max (exponent x) (- 1022) - 52 = - int k"
    using assms(3) by (simp add: e)
  have "(2::real) powi (- int k) = 1 / 2 ^ k"
    by (simp add: power_int_minus field_simps)
  then have "(2::real) powi (max (exponent x) (- 1022) - 52) = 1 / 2 ^ k"
    by (simp only: m)
  with x show ?thesis
    by (simp add: binary64_def Let_def)
qed

lemma Double_01: "Double_01 = 3602879701896397 / 2 ^ 55"
  unfolding Double_01_def
  by (subst binary64_eval [where k = 56]) (simp_all add: round_to_even_def Let_def)

lemma Double_02: "Double_02 = 3602879701896397 / 2 ^ 54"
  unfolding Double_02_def
  by (subst binary64_eval [where k = 55]) (simp_all add: round_to_even_def Let_def)

lemma Double_03: "Double_03 = 5404319552844595 / 2 ^ 54"
  unfolding Double_03_def
  by (subst binary64_eval [where k = 54]) (simp_all add: round_to_even_def Let_def)

lemma round_to_even_of_int: "round_to_even (of_int n) = n"
  by (simp add: round_to_even_def)

lemma binary64_of_int:
  assumes "0 < n" and "n < 2 ^ 53"
  shows "binary64 (of_int n) = of_int n"
proof -
  define b where "b = nat (bitlen n - 1)"
  from bitlen_bounds [OF assms(1)] have lo: "2 ^ b \<le> n" and hi: "n < 2 ^ nat (bitlen n)"
    by (simp_all add: b_def)
  from assms(1) have "1 \<le> bitlen n"
    by (simp add: bitlen_alt_def)
  then have bl: "nat (bitlen n) = b + 1"
    by (simp add: b_def)
  have "(2::int) ^ b < 2 ^ 53"
    using lo assms(2) by linarith
  then have b: "b < 53"
    by (rule power_less_imp_less_exp [rotated]) simp
  define k where "k = 52 - b"
  have bk: "b + k = 52" using b by (simp add: k_def)
  have p: "(2::real) ^ 52 = 2 ^ b * 2 ^ k" "(2::real) ^ 53 = 2 ^ (b + 1) * 2 ^ k"
    using bk by (simp_all flip: power_add)
  have n: "\<bar>real_of_int n\<bar> = of_int n" using assms(1) by simp
  have "(2::real) ^ b \<le> of_int n"
    using lo by (metis of_int_le_iff of_int_numeral of_int_power)
  then have a1: "2 ^ 52 \<le> \<bar>real_of_int n\<bar> * 2 ^ k"
    unfolding p n by simp
  have "real_of_int n < 2 ^ (b + 1)"
    using hi unfolding bl by (metis of_int_less_iff of_int_numeral of_int_power)
  then have a2: "\<bar>real_of_int n\<bar> * 2 ^ k < 2 ^ 53"
    unfolding p n by simp
  have a3: "k \<le> 1074" by (simp add: k_def)
  have "real_of_int n * 2 ^ k = of_int (n * 2 ^ k)" by simp
  then have "round_to_even (real_of_int n * 2 ^ k) = n * 2 ^ k"
    by (simp only: round_to_even_of_int)
  then show ?thesis
    unfolding binary64_eval [OF a1 a2 a3] by simp
qed

lemma Double_plus_numerals:
  "(numeral a + numeral b :: int) < 2 ^ 53 \<Longrightarrow>
   Double_plus (numeral a) (numeral b) = numeral a + numeral b"
  using binary64_of_int [of "numeral a + numeral b"] by (simp add: Double_plus_def)

lemma Double_plus_0_numeral:
  "(numeral b :: int) < 2 ^ 53 \<Longrightarrow> Double_plus 0 (numeral b) = numeral b"
  using binary64_of_int [of "numeral b"] by (simp add: Double_plus_def)

lemma Double_plus_0_01: "Double_plus 0 Double_01 = Double_01"
  unfolding Double_plus_def Double_01
  by (subst binary64_eval [where k = 56]) (simp_all add: round_to_even_def Let_def)

lemma Double_plus_01_02: "Double_plus Double_01 Double_02 = 1351079888211149 / 2 ^ 52"
  unfolding Double_plus_def Double_01 Double_02
  by (subst binary64_eval [where k = 54]) (simp_all add: round_to_even_def Let_def)

lemma Double_plus_01_02_03:
  "Double_plus (Double_plus Double_01 Double_02) Double_03 = 1351079888211149 / 2 ^ 51"
  unfolding Double_plus_01_02
  unfolding Double_plus_def Double_03
  by (subst binary64_eval [where k = 53]) (simp_all add: round_to_even_def Let_def)

lemma Double_plus_0_02: "Double_plus 0 Double_02 = Double_02"
  unfolding Double_plus_def Double_02
  by (subst binary64_eval [where k = 55]) (simp_all add: round_to_even_def Let_def)

lemma Double_plus_02_03: "Double_plus Double_02 Double_03 = 1 / 2"
  unfolding Double_plus_def Double_02 Double_03
  by (subst binary64_eval [where k = 53]) (simp_all add: round_to_even_def Let_def)

lemma Double_plus_01_half: "Double_plus Double_01 (1 / 2) = 5404319552844595 / 2 ^ 53"
  unfolding Double_plus_def Double_01
  by (subst binary64_eval [where k = 53]) (simp_all add: round_to_even_def Let_def)

lemmas example_sums =
  Double_plus_numerals Double_plus_0_numeral Double_plus_0_01 Double_plus_01_02_03
  Double_plus_0_02 Double_plus_02_03 Double_plus_01_half

lemma example_potential_sums:
  "Tides_potential ([example_constant_tide Double_01]
       @ [example_constant_tide Double_02, example_constant_tide Double_03])
     0 (Vector3d 1 0 0) () () () = Inr (1351079888211149 / 2 ^ 51)"
  "Tides_potential [example_constant_tide Double_01] 0 (Vector3d 1 0 0) () () () = Inr Double_01"
  "Tides_potential [example_constant_tide Double_02, example_constant_tide Double_03]
     0 (Vector3d 1 0 0) () () () = Inr (1 / 2)"
  by (simp_all add: Tides_potential_def add_to_def example_constant_tide_def example_sums)

text \<open>
  Claim C3 says that the aggregate over \<open>A @ B\<close> is the sum of the aggregates over \<open>A\<close> and
  over \<open>B\<close>. For three tides with the potentials \<^verbatim>\<open>0.1\<close>, \<^verbatim>\<open>0.2\<close> and \<^verbatim>\<open>0.3\<close>, the first in \<open>A\<close>
  and the other two in \<open>B\<close>, the potential over \<open>A @ B\<close> is \<^verbatim>\<open>0.6000000000000001\<close>, the
  aggregates over \<open>A\<close> and over \<open>B\<close> are \<^verbatim>\<open>0.1\<close> and \<^verbatim>\<open>0.5\<close>, and their sum is \<^verbatim>\<open>0.6\<close> as
  a \<^verbatim>\<open>Double\<close> and a third number in exact arithmetic.
\<close>

theorem aggregate_of_concatenation_is_not_sum_of_aggregates:
  "Tides_potential ([example_constant_tide Double_01]
       @ [example_constant_tide Double_02, example_constant_tide Double_03])
     0 (Vector3d 1 0 0) () () () = Inr (1351079888211149 / 2 ^ 51)
   \<and> plus_results Double_plus
       (Tides_potential [example_constant_tide Double_01] 0 (Vector3d 1 0 0) () () ())
       (Tides_potential [example_constant_tide Double_02, example_constant_tide Double_03]
          0 (Vector3d 1 0 0) () () ())
     = Inr (5404319552844595 / 2 ^ 53)
   \<and> plus_results (+)
       (Tides_potential [example_constant_tide Double_01] 0 (Vector3d 1 0 0) () () ())
       (Tides_potential [example_constant_tide Double_02, example_constant_tide Double_03]
          0 (Vector3d 1 0 0) () () ())
     = Inr (3602879701896397 / 2 ^ 55 + 1 / 2)
   \<and> (1351079888211149 / 2 ^ 51 :: real) \<noteq> 5404319552844595 / 2 ^ 53
   \<and> (1351079888211149 / 2 ^ 51 :: real) \<noteq> 3602879701896397 / 2 ^ 55 + 1 / 2"
proof -
  note s = example_potential_sums
  have a: "plus_results Double_plus
       (Tides_potential [example_constant_tide Double_01] 0 (Vector3d 1 0 0) () () ())
       (Tides_potential [example_constant_tide Double_02, example_constant_tide Double_03]
          0 (Vector3d 1 0 0) () () ())
     = Inr (5404319552844595 / 2 ^ 53)"
    unfolding s(2,3) by (simp add: plus_results_def Double_plus_01_half)
  have b: "plus_results (+)
       (Tides_potential [example_constant_tide Double_01] 0 (Vector3d 1 0 0) () () ())
       (Tides_potential [example_constant_tide Double_02, example_constant_tide Double_03]
          0 (Vector3d 1 0 0) () () ())
     = Inr (3602879701896397 / 2 ^ 55 + 1 / 2)"
    unfolding s(2,3) by (simp add: plus_results_def Double_01)
  have c: "(1351079888211149 / 2 ^ 51 :: real) \<noteq> 5404319552844595 / 2 ^ 53"
    "(1351079888211149 / 2 ^ 51 :: real) \<noteq> 3602879701896397 / 2 ^ 55 + 1 / 2"
    by simp_all
  from s(1) a b c show ?thesis by (intro conjI)
qed

theorem aggregates_are_sums_in_configuration_order_witness:
  "list_all2 (\<lambda>tide v. potential tide 0 (Vector3d 1 0 0) () () () = Inr v)
     [example_constant_tide Double_01] [Double_01]
   \<and> list_all2 (\<lambda>tide v. potential tide 0 (Vector3d 1 0 0) () () () = Inr v)
     [example_constant_tide Double_02, example_constant_tide Double_03] [Double_02, Double_03]
   \<and> list_all2 (\<lambda>tide v. radialGradient tide 0 (Vector3d 1 0 0) () () () = Inr v)
     [example_constant_tide Double_01] [Double_01]
   \<and> list_all2 (\<lambda>tide v. radialGradient tide 0 (Vector3d 1 0 0) () () () = Inr v)
     [example_constant_tide Double_02, example_constant_tide Double_03] [Double_02, Double_03]
   \<and> list_all2 (\<lambda>tide v. gravity tide 0 (Vector3d 1 0 0) () () () = Inr v)
     [example_constant_tide Double_01] [Vector3d Double_01 2 3]
   \<and> list_all2 (\<lambda>tide v. gravity tide 0 (Vector3d 1 0 0) () () () = Inr v)
     [example_constant_tide Double_02, example_constant_tide Double_03]
     [Vector3d Double_02 2 3, Vector3d Double_03 2 3]
   \<and> list_all2 (\<lambda>tide v. gravityGradient tide 0 (Vector3d 1 0 0) () () () = Inr v)
     [example_constant_tide Double_01] [Tensor3d Double_01 2 3 4 5 6]
   \<and> list_all2 (\<lambda>tide v. gravityGradient tide 0 (Vector3d 1 0 0) () () () = Inr v)
     [example_constant_tide Double_02, example_constant_tide Double_03]
     [Tensor3d Double_02 2 3 4 5 6, Tensor3d Double_03 2 3 4 5 6]
   \<and> Tides_potential ([example_constant_tide Double_01]
         @ [example_constant_tide Double_02, example_constant_tide Double_03])
       0 (Vector3d 1 0 0) () () () = Inr (1351079888211149 / 2 ^ 51)
   \<and> Tides_radialGradient ([example_constant_tide Double_01]
         @ [example_constant_tide Double_02, example_constant_tide Double_03])
       0 (Vector3d 1 0 0) () () () = Inr (1351079888211149 / 2 ^ 51)
   \<and> Tides_acceleration ([example_constant_tide Double_01]
         @ [example_constant_tide Double_02, example_constant_tide Double_03])
       0 (Vector3d 1 0 0) () () () = Inr (Vector3d (1351079888211149 / 2 ^ 51) 6 9)
   \<and> Tides_gradient ([example_constant_tide Double_01]
         @ [example_constant_tide Double_02, example_constant_tide Double_03])
       0 (Vector3d 1 0 0) () () () = Inr (Tensor3d (1351079888211149 / 2 ^ 51) 6 9 12 15 18)
   \<and> Tides_potential [example_constant_tide Double_01] 0 (Vector3d 1 0 0) () () () = Inr Double_01
   \<and> Tides_potential [example_constant_tide Double_02, example_constant_tide Double_03]
       0 (Vector3d 1 0 0) () () () = Inr (1 / 2)"
proof -
  have v: "list_all2 (\<lambda>tide v. potential tide 0 (Vector3d 1 0 0) () () () = Inr v)
     [example_constant_tide Double_01] [Double_01]"
    "list_all2 (\<lambda>tide v. potential tide 0 (Vector3d 1 0 0) () () () = Inr v)
     [example_constant_tide Double_02, example_constant_tide Double_03] [Double_02, Double_03]"
    and r: "list_all2 (\<lambda>tide v. radialGradient tide 0 (Vector3d 1 0 0) () () () = Inr v)
     [example_constant_tide Double_01] [Double_01]"
    "list_all2 (\<lambda>tide v. radialGradient tide 0 (Vector3d 1 0 0) () () () = Inr v)
     [example_constant_tide Double_02, example_constant_tide Double_03] [Double_02, Double_03]"
    and g: "list_all2 (\<lambda>tide v. gravity tide 0 (Vector3d 1 0 0) () () () = Inr v)
     [example_constant_tide Double_01] [Vector3d Double_01 2 3]"
    "list_all2 (\<lambda>tide v. gravity tide 0 (Vector3d 1 0 0) () () () = Inr v)
     [example_constant_tide Double_02, example_constant_tide Double_03]
     [Vector3d Double_02 2 3, Vector3d Double_03 2 3]"
    and t: "list_all2 (\<lambda>tide v. gravityGradient tide 0 (Vector3d 1 0 0) () () () = Inr v)
     [example_constant_tide Double_01] [Tensor3d Double_01 2 3 4 5 6]"
    "list_all2 (\<lambda>tide v. gravityGradient tide 0 (Vector3d 1 0 0) () () () = Inr v)
     [example_constant_tide Double_02, example_constant_tide Double_03]
     [Tensor3d Double_02 2 3 4 5 6, Tensor3d Double_03 2 3 4 5 6]"
    by (simp_all add: example_constant_tide_def)
  note th = aggregates_are_sums_in_configuration_order
    [of 0 "Vector3d 1 0 0" "()" "()" "()"
       "[example_constant_tide Double_01]" "[Double_01]"
       "[example_constant_tide Double_02, example_constant_tide Double_03]" "[Double_02, Double_03]"
       "[Double_01]" "[Double_02, Double_03]"
       "[Vector3d Double_01 2 3]" "[Vector3d Double_02 2 3, Vector3d Double_03 2 3]"
       "[Tensor3d Double_01 2 3 4 5 6]" "[Tensor3d Double_02 2 3 4 5 6, Tensor3d Double_03 2 3 4 5 6]"]
  from th v r g t
  have "Tides_potential ([example_constant_tide Double_01]
         @ [example_constant_tide Double_02, example_constant_tide Double_03])
       0 (Vector3d 1 0 0) () () () = Inr (1351079888211149 / 2 ^ 51)"
    and "Tides_radialGradient ([example_constant_tide Double_01]
         @ [example_constant_tide Double_02, example_constant_tide Double_03])
       0 (Vector3d 1 0 0) () () () = Inr (1351079888211149 / 2 ^ 51)"
    and "Tides_acceleration ([example_constant_tide Double_01]
         @ [example_constant_tide Double_02, example_constant_tide Double_03])
       0 (Vector3d 1 0 0) () () () = Inr (Vector3d (1351079888211149 / 2 ^ 51) 6 9)"
    and "Tides_gradient ([example_constant_tide Double_01]
         @ [example_constant_tide Double_02, example_constant_tide Double_03])
       0 (Vector3d 1 0 0) () () () = Inr (Tensor3d (1351079888211149 / 2 ^ 51) 6 9 12 15 18)"
    and "Tides_potential [example_constant_tide Double_01] 0 (Vector3d 1 0 0) () () () = Inr Double_01"
    and "Tides_potential [example_constant_tide Double_02, example_constant_tide Double_03]
       0 (Vector3d 1 0 0) () () () = Inr (1 / 2)"
    by (simp_all add: example_sums)
  with v r g t show ?thesis by simp
qed

text \<open>
  Claim C6. Without tides the potential and the radial gradient are 0, the acceleration is
  the zero vector, the gradient is the zero tensor, and \<^verbatim>\<open>sphericalHarmonics\<close> returns the
  default constructed \<^verbatim>\<open>SphericalHarmonics()\<close>, for every input.
\<close>

theorem empty_aggregator_returns_zero:
  "Tides_potential [] timeGPS point rotEarth rotation ephemerides = Inr 0
   \<and> Tides_radialGradient [] timeGPS point rotEarth rotation ephemerides = Inr 0
   \<and> Tides_acceleration [] timeGPS point rotEarth rotation ephemerides = Inr (Vector3d 0 0 0)
   \<and> Tides_gradient [] timeGPS point rotEarth rotation ephemerides = Inr (Tensor3d 0 0 0 0 0 0)
   \<and> Tides_sphericalHarmonics lib [] timeGPS rotEarth rotation ephemerides maxDegree minDegree GM R =
       Inr (SphericalHarmonics_new lib)"
  by (simp add: Tides_potential_def Tides_radialGradient_def Tides_acceleration_def Tides_gradient_def
      Tides_sphericalHarmonics_def Vector3d_new_def Tensor3d_new_def)

subsection \<open>Assignments to a matrix\<close>

lemma has_shape_nth: "has_shape r c A \<Longrightarrow> i < r \<Longrightarrow> length (A ! i) = c"
  by (auto simp: has_shape_def list_all_length)

lemma has_shape_Matrix_new: "has_shape r c (Matrix_elements (Matrix_new r c))"
  by (simp add: has_shape_def Matrix_new_def list_all_length)

lemma nth_assign_row:
  "assign_elements A i j v ! i' = (if i' = i \<and> i < length A then (A ! i)[j := v] else A ! i')"
  by (cases "i < length A") (simp_all add: assign_elements_def nth_list_update list_update_beyond)

lemma length_assign: "length (assign_elements A i j v) = length A"
  by (simp add: assign_elements_def)

lemma has_shape_assign: "has_shape r c A \<Longrightarrow> has_shape r c (assign_elements A i j v)"
  by (simp add: has_shape_def list_all_length length_assign nth_assign_row)

lemma has_shape_assign_column: "has_shape r c A \<Longrightarrow> has_shape r c (assign_rows k A cd)"
  by (simp add: assign_rows_def has_shape_assign)

lemma has_shape_foldl_assign_column:
  "has_shape r c A \<Longrightarrow> has_shape r c (foldl (assign_rows k) A ws)"
  by (induction ws arbitrary: A) (simp_all add: has_shape_assign_column)

lemma nth_assign:
  "i' < length A \<Longrightarrow> j' < length (A ! i') \<Longrightarrow>
   assign_elements A i j v ! i' ! j' = (if i' = i \<and> j' = j then v else A ! i' ! j')"
  by (auto simp: nth_assign_row nth_list_update)

lemma nth_assign_row_neq: "i' \<noteq> i \<Longrightarrow> assign_elements A i j v ! i' = A ! i'"
  by (simp add: nth_assign_row)

lemma nth_assign_col_neq: "j' \<noteq> j \<Longrightarrow> assign_elements A i j v ! i' ! j' = A ! i' ! j'"
  by (simp add: nth_assign_row)

lemma entries_assign_column_same:
  assumes "has_shape r c A" and "3 * k + 2 < r" and "j < c"
  shows "entries_of_rows (assign_rows k A (j, d)) k j = d"
proof -
  note sh1 = has_shape_assign [OF assms(1)]
  note sh2 = has_shape_assign [OF sh1]
  have len: "length A = r" using assms(1) by (simp add: has_shape_def)
  have l1: "\<And>i j' v. length (assign_elements A i j' v) = r"
    using sh1 by (simp add: has_shape_def)
  have l2: "\<And>i j' v i2 j2 v2. length (assign_elements (assign_elements A i j' v) i2 j2 v2) = r"
    using sh2 by (simp add: has_shape_def)
  have r1: "\<And>i j' v i'. i' < r \<Longrightarrow> length (assign_elements A i j' v ! i') = c"
    using has_shape_nth [OF sh1] by simp
  have r2: "\<And>i j' v i2 j2 v2 i'. i' < r \<Longrightarrow> length (assign_elements (assign_elements A i j' v) i2 j2 v2 ! i') = c"
    using has_shape_nth [OF sh2] by simp
  have r0: "\<And>i'. i' < r \<Longrightarrow> length (A ! i') = c"
    using has_shape_nth [OF assms(1)] by simp
  show ?thesis
    using assms(2,3)
    by (cases d) (simp add: entries_of_rows_def assign_rows_def nth_assign len l1 l2 r0 r1 r2)
qed

lemma entries_assign_column_other:
  "j' \<noteq> fst cd \<Longrightarrow> entries_of_rows (assign_rows k A cd) k' j' = entries_of_rows A k' j'"
  by (simp add: entries_of_rows_def assign_rows_def nth_assign_col_neq)

lemma entries_foldl_untouched:
  "j' \<notin> fst ` set ws \<Longrightarrow>
   entries_of_rows (foldl (assign_rows k) A ws) k' j' = entries_of_rows A k' j'"
  by (induction ws arbitrary: A) (simp_all add: entries_assign_column_other)

lemma entries_foldl_written:
  assumes "distinct (map fst ws)" and "(j, d) \<in> set ws"
    and "has_shape r c A" and "3 * k + 2 < r" and "j < c"
  shows "entries_of_rows (foldl (assign_rows k) A ws) k j = d"
  using assms
proof (induction ws arbitrary: A)
  case Nil
  then show ?case by simp
next
  case (Cons w ws)
  show ?case
  proof (cases "w = (j, d)")
    case True
    with Cons.prems(1) have "j \<notin> fst ` set ws" by auto
    then show ?thesis
      using True entries_assign_column_same [OF Cons.prems(3,4,5)]
      by (simp add: entries_foldl_untouched)
  next
    case False
    with Cons.prems have "(j, d) \<in> set ws" "distinct (map fst ws)" by auto
    from Cons.IH [OF this(2,1) has_shape_assign_column [OF Cons.prems(3)] Cons.prems(4,5)]
    show ?thesis by simp
  qed
qed

lemma rows_foldl_other_point:
  "k' \<noteq> k \<Longrightarrow> entries_of_rows (foldl (assign_rows k) A ws) k' j = entries_of_rows A k' j"
proof (induction ws arbitrary: A)
  case Nil
  then show ?case by simp
next
  case (Cons w ws)
  have "entries_of_rows (assign_rows k A w) k' j = entries_of_rows A k' j"
    using Cons.prems
    by (simp add: entries_of_rows_def assign_rows_def nth_assign_row_neq)
  with Cons show ?case by simp
qed

subsection \<open>The columns of the coefficients\<close>

lemma UInt_id: "x < 2 ^ 64 \<Longrightarrow> UInt x = x"
  by (simp add: UInt_def)

lemma column_index_small:
  fixes n m N :: nat
  assumes "n \<le> N" and "m \<le> n" and "(N + 1) * (N + 1) < 2 ^ 64"
  shows "n * n + 2 * m < (N + 1) * (N + 1)" and "n * n + 2 * m < 2 ^ 64"
proof -
  have "n * n + 2 * m \<le> n * n + 2 * n" using assms(2) by simp
  also have "\<dots> < (n + 1) * (n + 1)" by simp
  also have "\<dots> \<le> (N + 1) * (N + 1)" using assms(1) by (intro mult_le_mono) simp_all
  finally show "n * n + 2 * m < (N + 1) * (N + 1)" .
  with assms(3) show "n * n + 2 * m < 2 ^ 64" by simp
qed

lemma positions_columns:
  "map (\<lambda>(n, j). n * n + j) (positions maxDegree) =
   map (\<lambda>n. n * n) [0..<maxDegree + 1]
   @ concat (map (\<lambda>m. concat (map (\<lambda>n. [n * n + 2 * m - 1, n * n + 2 * m])
               [m..<maxDegree + 1])) [1..<maxDegree + 1])"
  unfolding positions_def
  by (auto simp: map_concat comp_def intro!: arg_cong [where f = concat])

lemma columns_of_point_positions:
  assumes "(maxDegree + 1) * (maxDegree + 1) < 2 ^ 64"
  shows "map fst (columns_of_point lib p g hn ln' GM R maxDegree) =
   map (\<lambda>(n, j). n * n + j) (positions maxDegree)"
proof -
  have a: "map (\<lambda>n. UInt (n * n)) [0..<maxDegree + 1] = map (\<lambda>n. n * n) [0..<maxDegree + 1]"
  proof (rule map_cong [OF refl])
    fix n assume "n \<in> set [0..<maxDegree + 1]"
    then have "n \<le> maxDegree" by (simp del: upt_Suc)
    from column_index_small(2) [OF this _ assms, of 0] show "UInt (n * n) = n * n"
      by (simp add: UInt_id)
  qed
  have b: "[UInt (n * n + 2 * m - 1), UInt (n * n + 2 * m)] = [n * n + 2 * m - 1, n * n + 2 * m]"
    if "n \<le> maxDegree" "m \<le> n" for n m
  proof -
    from column_index_small(2) [OF that assms] have "n * n + 2 * m < 2 ^ 64" .
    moreover from this have "n * n + 2 * m - 1 < 2 ^ 64" by simp
    ultimately show ?thesis by (simp add: UInt_id)
  qed
  have c: "concat (map (\<lambda>m. concat (map (\<lambda>n. [UInt (n * n + 2 * m - 1), UInt (n * n + 2 * m)])
               [m..<maxDegree + 1])) [1..<maxDegree + 1])
         = concat (map (\<lambda>m. concat (map (\<lambda>n. [n * n + 2 * m - 1, n * n + 2 * m])
               [m..<maxDegree + 1])) [1..<maxDegree + 1])"
  proof (rule arg_cong [where f = concat], rule map_cong [OF refl],
         rule arg_cong [where f = concat], rule map_cong [OF refl])
    fix m n assume "m \<in> set [1..<maxDegree + 1]" "n \<in> set [m..<maxDegree + 1]"
    then have "n \<le> maxDegree" "m \<le> n" by (simp_all del: upt_Suc)
    then show "[UInt (n * n + 2 * m - 1), UInt (n * n + 2 * m)] = [n * n + 2 * m - 1, n * n + 2 * m]"
      by (rule b)
  qed
  have "map fst (columns_of_point lib p g hn ln' GM R maxDegree) =
        map (\<lambda>n. UInt (n * n)) [0..<maxDegree + 1]
        @ concat (map (\<lambda>m. concat (map (\<lambda>n. [UInt (n * n + 2 * m - 1), UInt (n * n + 2 * m)])
               [m..<maxDegree + 1])) [1..<maxDegree + 1])"
    unfolding columns_of_point_def
    by (simp add: map_concat comp_def del: upt_Suc)
  also have "\<dots> = map (\<lambda>(n, j). n * n + j) (positions maxDegree)"
    unfolding a c positions_columns ..
  finally show ?thesis .
qed

lemma distinct_concat_map:
  assumes "distinct xs" and "\<And>x. x \<in> set xs \<Longrightarrow> distinct (f x)"
    and "\<And>x y. x \<in> set xs \<Longrightarrow> y \<in> set xs \<Longrightarrow> x \<noteq> y \<Longrightarrow> set (f x) \<inter> set (f y) = {}"
  shows "distinct (concat (map f xs))"
  using assms by (induction xs) auto

lemma positions_bound: "(n, j) \<in> set (positions maxDegree) \<Longrightarrow> n \<le> maxDegree \<and> j \<le> 2 * n"
  by (auto simp: positions_def)

lemma distinct_positions: "distinct (positions maxDegree)"
proof -
  have inner: "distinct (concat (map (\<lambda>n. [(n, 2 * m - 1), (n, 2 * m)]) [m..<maxDegree + 1]))"
    if "1 \<le> m" for m
    using that by (intro distinct_concat_map) (auto simp del: upt_Suc)
  have outer: "distinct (concat (map (\<lambda>m. concat (map (\<lambda>n. [(n, 2 * m - 1), (n, 2 * m)]) [m..<maxDegree + 1]))
         [1..<maxDegree + 1]))"
  proof (rule distinct_concat_map)
    show "distinct [1..<maxDegree + 1]" by simp
  next
    fix m assume "m \<in> set [1..<maxDegree + 1]"
    then show "distinct (concat (map (\<lambda>n. [(n, 2 * m - 1), (n, 2 * m)]) [m..<maxDegree + 1]))"
      using inner by (simp del: upt_Suc)
  next
    fix m m' assume "m \<in> set [1..<maxDegree + 1]" "m' \<in> set [1..<maxDegree + 1]" "m \<noteq> m'"
    then show "set (concat (map (\<lambda>n. [(n, 2 * m - 1), (n, 2 * m)]) [m..<maxDegree + 1])) \<inter>
               set (concat (map (\<lambda>n. [(n, 2 * m' - 1), (n, 2 * m')]) [m'..<maxDegree + 1])) = {}"
      by (auto simp del: upt_Suc)
  qed
  have first: "distinct (map (\<lambda>n. (n, 0::nat)) [0..<maxDegree + 1])"
    by (simp add: distinct_map inj_on_def del: upt_Suc)
  have "1 \<le> j" if "(n, j) \<in> set (concat (map (\<lambda>m. concat (map (\<lambda>n. [(n, 2 * m - 1), (n, 2 * m)])
         [m..<maxDegree + 1])) [1..<maxDegree + 1]))" for n j
    using that by (auto simp del: upt_Suc)
  then have "set (map (\<lambda>n. (n, 0::nat)) [0..<maxDegree + 1]) \<inter>
     set (concat (map (\<lambda>m. concat (map (\<lambda>n. [(n, 2 * m - 1), (n, 2 * m)])
         [m..<maxDegree + 1])) [1..<maxDegree + 1])) = {}"
    by (fastforce simp del: upt_Suc set_concat)
  with first outer show ?thesis
    unfolding positions_def distinct_append by blast
qed

lemma square_position_less:
  fixes a b i i' :: nat
  assumes "a < b" and "a * a + i = b * b + i'" and "i \<le> 2 * a"
  shows False
proof -
  from assms(1) have "Suc a \<le> b" by simp
  then have "Suc a * Suc a \<le> b * b" by (intro mult_le_mono)
  with assms(2,3) show False by simp
qed

lemma square_position_inj:
  fixes n n' j j' :: nat
  assumes "n * n + j = n' * n' + j'" and "j \<le> 2 * n" and "j' \<le> 2 * n'"
  shows "n = n' \<and> j = j'"
proof -
  have "n = n'"
  proof (cases n n' rule: linorder_cases)
    case less
    from square_position_less [OF less assms(1,2)] show ?thesis ..
  next
    case greater
    from square_position_less [OF greater assms(1) [symmetric] assms(3)] show ?thesis ..
  qed
  with assms(1) show ?thesis by simp
qed

lemma inj_on_positions: "inj_on (\<lambda>(n, j). n * n + j) (set (positions maxDegree))"
proof (rule inj_onI; clarify)
  fix n j n' j'
  assume "(n, j) \<in> set (positions maxDegree)" "(n', j') \<in> set (positions maxDegree)"
    and eq: "n * n + j = n' * n' + j'"
  then have "j \<le> 2 * n" "j' \<le> 2 * n'"
    by (auto dest: positions_bound)
  from square_position_inj [OF eq this] show "n = n' \<and> j = j'" .
qed

lemma distinct_columns_of_point:
  assumes "(maxDegree + 1) * (maxDegree + 1) < 2 ^ 64"
  shows "distinct (map fst (columns_of_point lib p g hn ln' GM R maxDegree))"
  unfolding columns_of_point_positions [OF assms] distinct_map
  using distinct_positions inj_on_positions by blast

lemma square_root_exists:
  fixes c N :: nat
  shows "c < (N + 1) * (N + 1) \<Longrightarrow> \<exists>n\<le>N. n * n \<le> c \<and> c < (n + 1) * (n + 1)"
proof (induction N)
  case 0
  then show ?case by simp
next
  case (Suc N)
  show ?case
  proof (cases "c < (N + 1) * (N + 1)")
    case True
    with Suc.IH obtain n where "n \<le> N" "n * n \<le> c" "c < (n + 1) * (n + 1)" by blast
    then show ?thesis by (intro exI [of _ n]) simp
  next
    case False
    with Suc.prems show ?thesis by (intro exI [of _ "Suc N"]) simp
  qed
qed

lemma in_concat_map: "y \<in> set xs \<Longrightarrow> x \<in> set (f y) \<Longrightarrow> x \<in> set (concat (map f xs))"
  by auto

lemma set_positions:
  "set (positions maxDegree) = {(n, j). n \<le> maxDegree \<and> j \<le> 2 * n}"
proof (intro set_eqI iffI; clarify)
  fix n j assume "(n, j) \<in> set (positions maxDegree)"
  then show "n \<le> maxDegree \<and> j \<le> 2 * n" by (rule positions_bound)
next
  fix n j :: nat assume n: "n \<le> maxDegree" and j: "j \<le> 2 * n"
  show "(n, j) \<in> set (positions maxDegree)"
  proof (cases "j = 0")
    case True
    with n have "(n, j) \<in> set (map (\<lambda>n. (n, 0)) [0..<maxDegree + 1])"
      by (simp del: upt_Suc)
    then show ?thesis
      unfolding positions_def set_append by (rule UnI1)
  next
    case False
    define m where "m = (j + 1) div 2"
    have m1: "1 \<le> m" using False unfolding m_def by presburger
    have m2: "m \<le> n" using j unfolding m_def by presburger
    have jm: "j = 2 * m - 1 \<or> j = 2 * m" using False unfolding m_def by presburger
    have "(n, j) \<in> set [(n, 2 * m - 1), (n, 2 * m)]"
      using jm by auto
    moreover have "n \<in> set [m..<maxDegree + 1]"
      using m2 n by (simp del: upt_Suc)
    ultimately have "(n, j) \<in> set (concat (map (\<lambda>n. [(n, 2 * m - 1), (n, 2 * m)]) [m..<maxDegree + 1]))"
      by (rule in_concat_map [rotated])
    moreover have "m \<in> set [1..<maxDegree + 1]"
      using m1 m2 n by (simp del: upt_Suc)
    ultimately have "(n, j) \<in> set (concat (map (\<lambda>m. concat (map (\<lambda>n. [(n, 2 * m - 1), (n, 2 * m)])
         [m..<maxDegree + 1])) [1..<maxDegree + 1]))"
      by (rule in_concat_map [rotated])
    then show ?thesis
      unfolding positions_def set_append by (rule UnI2)
  qed
qed

lemma set_columns_of_point:
  assumes bound: "(maxDegree + 1) * (maxDegree + 1) < 2 ^ 64"
  shows "set (map fst (columns_of_point lib p g hn ln' GM R maxDegree)) = {..<(maxDegree + 1) * (maxDegree + 1)}"
proof (intro set_eqI iffI)
  fix c assume "c \<in> set (map fst (columns_of_point lib p g hn ln' GM R maxDegree))"
  then obtain n j where "c = n * n + j" "n \<le> maxDegree" "j \<le> 2 * n"
    unfolding columns_of_point_positions [OF bound] by (auto dest: positions_bound)
  moreover from this have "(n + 1) * (n + 1) \<le> (maxDegree + 1) * (maxDegree + 1)"
    by (intro mult_le_mono) simp_all
  ultimately show "c \<in> {..<(maxDegree + 1) * (maxDegree + 1)}"
    by simp
next
  fix c assume "c \<in> {..<(maxDegree + 1) * (maxDegree + 1)}"
  then have "c < (maxDegree + 1) * (maxDegree + 1)" by simp
  from square_root_exists [OF this]
  obtain n where n: "n \<le> maxDegree" "n * n \<le> c" "c < (n + 1) * (n + 1)" by blast
  then have "(n, c - n * n) \<in> set (positions maxDegree)"
    by (simp add: set_positions)
  moreover have "c = n * n + (c - n * n)" using n by simp
  ultimately show "c \<in> set (map fst (columns_of_point lib p g hn ln' GM R maxDegree))"
    unfolding columns_of_point_positions [OF bound] by force
qed

subsection \<open>The deformation matrix\<close>

lemma for_each_total:
  assumes "\<And>i s. i \<in> set xs \<Longrightarrow> body i s = Inr (g i s)"
  shows "for_each xs body s = Inr (foldl (\<lambda>s i. g i s) s xs)"
  using assms by (induction xs arbitrary: s) simp_all

lemma entries_points_untouched:
  "k \<notin> set ks \<Longrightarrow>
   entries_of_rows (foldl (\<lambda>A k. foldl (assign_rows k) A (W k)) A ks) k j = entries_of_rows A k j"
  by (induction ks arbitrary: A) (auto simp: rows_foldl_other_point)

lemma entries_points_written:
  assumes "k \<in> set ks" and "distinct ks" and "has_shape r c A" and "3 * k + 2 < r"
    and "(j, d) \<in> set (W k)" and "j < c" and "distinct (map fst (W k))"
  shows "entries_of_rows (foldl (\<lambda>A k. foldl (assign_rows k) A (W k)) A ks) k j = d"
  using assms(1,2,3)
proof (induction ks arbitrary: A)
  case Nil
  then show ?case by simp
next
  case (Cons k' ks)
  show ?case
  proof (cases "k' = k")
    case True
    with Cons.prems(2) have "k \<notin> set ks" by simp
    then show ?thesis
      using True entries_foldl_written [OF assms(7,5) Cons.prems(3) assms(4,6)]
      by (simp add: entries_points_untouched)
  next
    case False
    with Cons.prems have "k \<in> set ks" "distinct ks" by auto
    from Cons.IH [OF this has_shape_foldl_assign_column [OF Cons.prems(3)]]
    show ?thesis by simp
  qed
qed

lemma assign_column_Inr:
  assumes "3 * k + 2 < Matrix_rows A" and "Matrix_rows A < 2 ^ 64" and "c < Matrix_columns A"
  shows "assign_column k (c, Inr d) A =
         Inr (A\<lparr>Matrix_elements := assign_rows k (Matrix_elements A) (c, d)\<rparr>)"
proof -
  have "3 * k + 2 < 2 ^ 64" using assms(1,2) by simp
  then have "UInt (3 * k) = 3 * k" "UInt (3 * k + 1) = 3 * k + 1" "UInt (3 * k + 2) = 3 * k + 2"
    by (simp_all add: UInt_id)
  then show ?thesis
    using assms(1,3) by (simp add: assign_column_def assign_def assign_rows_def)
qed

lemma for_each_assign_column:
  assumes "3 * k + 2 < Matrix_rows A" and "Matrix_rows A < 2 ^ 64"
    and "\<forall>cd\<in>set ws. fst cd < Matrix_columns A \<and> (\<exists>d. snd cd = Inr d)"
  shows "for_each ws (assign_column k) A =
         Inr (A\<lparr>Matrix_elements := foldl (assign_rows k) (Matrix_elements A) (column_values ws)\<rparr>)"
  using assms
proof (induction ws arbitrary: A)
  case Nil
  show ?case by (simp add: column_values_def)
next
  case (Cons w ws)
  obtain c r where w: "w = (c, r)" by (cases w)
  with Cons.prems(3) obtain d where r: "r = Inr d" and c: "c < Matrix_columns A" by auto
  let ?A = "A\<lparr>Matrix_elements := assign_rows k (Matrix_elements A) (c, d)\<rparr>"
  have step: "assign_column k w A = Inr ?A"
    unfolding w r by (rule assign_column_Inr [OF Cons.prems(1,2) c])
  have "for_each ws (assign_column k) ?A =
        Inr (?A\<lparr>Matrix_elements := foldl (assign_rows k) (Matrix_elements ?A) (column_values ws)\<rparr>)"
    by (rule Cons.IH) (use Cons.prems in simp_all)
  with step show ?case
    by (simp add: column_values_def w r)
qed

lemma disp_Inr:
  assumes "n < length hn" and "n < length ln'"
  shows "\<exists>d. disp_order0 lib p g hn ln' GM R maxDegree n = Inr d"
    and "\<exists>d. disp_cos lib p g hn ln' GM R maxDegree m n = Inr d"
    and "\<exists>d. disp_sin lib p g hn ln' GM R maxDegree m n = Inr d"
  using assms
  by (simp_all add: disp_order0_def disp_cos_def disp_sin_def Let_def Vector_element_def
      split: prod.splits)

lemma in_concat_map_obtain:
  "x \<in> set (concat (map f xs)) \<Longrightarrow> \<exists>y\<in>set xs. x \<in> set (f y)"
  by auto

lemma columns_of_point_Inr:
  assumes "maxDegree < length hn" and "maxDegree < length ln'"
    and "cd \<in> set (columns_of_point lib p g hn ln' GM R maxDegree)"
  shows "\<exists>d. snd cd = Inr d"
proof -
  have n: "n < length hn" "n < length ln'" if "n \<in> set [m..<maxDegree + 1]" for n m
    using that assms(1,2) by (simp_all del: upt_Suc)
  from assms(3) have "cd \<in> set (map (\<lambda>n. (UInt (n * n), disp_order0 lib p g hn ln' GM R maxDegree n))
       [0..<maxDegree + 1])
     \<or> cd \<in> set (concat (map (\<lambda>m. concat (map (\<lambda>n.
           [(UInt (n * n + 2 * m - 1), disp_cos lib p g hn ln' GM R maxDegree m n),
            (UInt (n * n + 2 * m), disp_sin lib p g hn ln' GM R maxDegree m n)])
         [m..<maxDegree + 1])) [1..<maxDegree + 1]))"
    unfolding columns_of_point_def set_append by blast
  then show ?thesis
  proof
    assume "cd \<in> set (map (\<lambda>n. (UInt (n * n), disp_order0 lib p g hn ln' GM R maxDegree n))
       [0..<maxDegree + 1])"
    then have "cd \<in> (\<lambda>n. (UInt (n * n), disp_order0 lib p g hn ln' GM R maxDegree n))
       ` set [0..<maxDegree + 1]"
      by (simp only: set_map)
    then obtain n where n0: "n \<in> set [0..<maxDegree + 1]"
      and cd: "cd = (UInt (n * n), disp_order0 lib p g hn ln' GM R maxDegree n)"
      by (rule imageE)
    from disp_Inr(1) [OF n [OF n0]] cd show ?thesis by simp
  next
    assume "cd \<in> set (concat (map (\<lambda>m. concat (map (\<lambda>n.
           [(UInt (n * n + 2 * m - 1), disp_cos lib p g hn ln' GM R maxDegree m n),
            (UInt (n * n + 2 * m), disp_sin lib p g hn ln' GM R maxDegree m n)])
         [m..<maxDegree + 1])) [1..<maxDegree + 1]))"
    from in_concat_map_obtain [OF this]
    obtain m where "cd \<in> set (concat (map (\<lambda>n.
           [(UInt (n * n + 2 * m - 1), disp_cos lib p g hn ln' GM R maxDegree m n),
            (UInt (n * n + 2 * m), disp_sin lib p g hn ln' GM R maxDegree m n)])
         [m..<maxDegree + 1]))"
      by blast
    from in_concat_map_obtain [OF this]
    obtain n' where n': "n' \<in> set [m..<maxDegree + 1]"
      and "cd \<in> set [(UInt (n' * n' + 2 * m - 1), disp_cos lib p g hn ln' GM R maxDegree m n'),
            (UInt (n' * n' + 2 * m), disp_sin lib p g hn ln' GM R maxDegree m n')]"
      by blast
    then have "snd cd = disp_cos lib p g hn ln' GM R maxDegree m n'
        \<or> snd cd = disp_sin lib p g hn ln' GM R maxDegree m n'"
      by auto
    with disp_Inr(2,3) [OF n [OF n'], of lib p g GM R maxDegree m] show ?thesis by auto
  qed
qed

lemma map_fst_column_values: "map fst (column_values ws) = map fst ws"
  by (simp add: column_values_def comp_def)

lemma in_column_values: "(c, Inr d) \<in> set ws \<Longrightarrow> (c, d) \<in> set (column_values ws)"
  by (force simp: column_values_def)

lemma for_each_points:
  assumes "Matrix_rows A = 3 * K" and "3 * K < 2 ^ 64"
    and "\<forall>k\<in>set ks. k < K \<and> k < length gravity'"
    and "\<And>k. k \<in> set ks \<Longrightarrow> \<forall>cd\<in>set (W k). fst cd < Matrix_columns A \<and> (\<exists>d. snd cd = Inr d)"
  shows "for_each ks
           (\<lambda>k A. case vector_at gravity' k of
                     Inl e \<Rightarrow> Inl e
                   | Inr gravity_k \<Rightarrow> for_each (W k) (assign_column k) A) A =
         Inr (A\<lparr>Matrix_elements :=
                  foldl (\<lambda>E k. foldl (assign_rows k) E (column_values (W k))) (Matrix_elements A) ks\<rparr>)"
  using assms
proof (induction ks arbitrary: A)
  case Nil
  show ?case by simp
next
  case (Cons k ks)
  from Cons.prems(3) have k: "k < K" "k < length gravity'" by simp_all
  let ?A = "A\<lparr>Matrix_elements := foldl (assign_rows k) (Matrix_elements A) (column_values (W k))\<rparr>"
  have rows: "3 * k + 2 < Matrix_rows A" "Matrix_rows A < 2 ^ 64"
    using k(1) Cons.prems(1,2) by simp_all
  have step: "for_each (W k) (assign_column k) A = Inr ?A"
    by (rule for_each_assign_column [OF rows]) (use Cons.prems(4) [of k] in simp)
  have "for_each ks
           (\<lambda>k A. case vector_at gravity' k of
                     Inl e \<Rightarrow> Inl e
                   | Inr gravity_k \<Rightarrow> for_each (W k) (assign_column k) A) ?A =
         Inr (?A\<lparr>Matrix_elements :=
                  foldl (\<lambda>E k. foldl (assign_rows k) E (column_values (W k))) (Matrix_elements ?A) ks\<rparr>)"
  proof (rule Cons.IH)
    show "Matrix_rows ?A = 3 * K" using Cons.prems(1) by simp
    show "3 * K < 2 ^ 64" by (rule Cons.prems(2))
    show "\<forall>k\<in>set ks. k < K \<and> k < length gravity'" using Cons.prems(3) by simp
    show "\<forall>cd\<in>set (W k'). fst cd < Matrix_columns ?A \<and> (\<exists>d. snd cd = Inr d)"
      if "k' \<in> set ks" for k'
      using Cons.prems(4) [of k'] that by simp
  qed
  then show ?case
    using k(2) by (simp add: vector_at_def step)
qed


lemma deformationMatrix_fold:
  assumes "length point \<le> length gravity'"
    and "maxDegree < length hn" and "maxDegree < length ln'"
    and "(maxDegree + 1) * (maxDegree + 1) < 2 ^ 64" and "3 * length point < 2 ^ 64"
  shows "deformationMatrix lib point gravity' hn ln' GM R maxDegree =
     Inr \<lparr>Matrix_rows = 3 * length point,
          Matrix_columns = (maxDegree + 1) * (maxDegree + 1),
          Matrix_elements =
            foldl (\<lambda>E k. foldl (assign_rows k) E
                     (column_values (columns_of_point lib (point ! k) (gravity' ! k) hn ln' GM R maxDegree)))
              (replicate (3 * length point) (replicate ((maxDegree + 1) * (maxDegree + 1)) 0))
              [0..<length point]\<rparr>"
proof -
  define A0 where "A0 = Matrix_new (3 * length point) ((maxDegree + 1) * (maxDegree + 1))"
  define W where "W k = columns_of_point lib (point ! k) (gravity' ! k) hn ln' GM R maxDegree" for k
  have dims: "UInt (3 * length point) = 3 * length point"
    "UInt ((maxDegree + 1) * (maxDegree + 1)) = (maxDegree + 1) * (maxDegree + 1)"
    using assms(4,5) by (simp_all add: UInt_id)
  have body: "(case vector_at gravity' k of
                 Inl e \<Rightarrow> Inl e
               | Inr gravity_k \<Rightarrow>
                   for_each (columns_of_point lib (point ! k) gravity_k hn ln' GM R maxDegree)
                     (assign_column k) A)
            = (case vector_at gravity' k of
                 Inl e \<Rightarrow> Inl e
               | Inr gravity_k \<Rightarrow> for_each (W k) (assign_column k) A)" for k A
    by (simp add: vector_at_def W_def)
  have cols: "\<forall>cd\<in>set (W k). fst cd < Matrix_columns A0 \<and> (\<exists>d. snd cd = Inr d)" for k
  proof
    fix cd assume cd: "cd \<in> set (W k)"
    then have "fst cd \<in> set (map fst (W k))" by simp
    then have "fst cd < (maxDegree + 1) * (maxDegree + 1)"
      unfolding W_def set_columns_of_point [OF assms(4)] by simp
    moreover from cd have "\<exists>d. snd cd = Inr d"
      unfolding W_def by (rule columns_of_point_Inr [OF assms(2,3)])
    ultimately show "fst cd < Matrix_columns A0 \<and> (\<exists>d. snd cd = Inr d)"
      by (simp add: A0_def Matrix_new_def)
  qed
  have "for_each [0..<length point]
           (\<lambda>k A. case vector_at gravity' k of
                     Inl e \<Rightarrow> Inl e
                   | Inr gravity_k \<Rightarrow> for_each (W k) (assign_column k) A) A0 =
         Inr (A0\<lparr>Matrix_elements :=
                  foldl (\<lambda>E k. foldl (assign_rows k) E (column_values (W k))) (Matrix_elements A0)
                    [0..<length point]\<rparr>)"
  proof (rule for_each_points [where K = "length point"])
    show "Matrix_rows A0 = 3 * length point" by (simp add: A0_def Matrix_new_def)
    show "3 * length point < 2 ^ 64" by (rule assms(5))
    show "\<forall>k\<in>set [0..<length point]. k < length point \<and> k < length gravity'"
      using assms(1) by simp
    show "\<forall>cd\<in>set (W k). fst cd < Matrix_columns A0 \<and> (\<exists>d. snd cd = Inr d)" for k
      by (rule cols)
  qed
  then show ?thesis
    unfolding deformationMatrix_def dims body
    by (simp add: A0_def Matrix_new_def W_def)
qed


lemma entries_of_point_rows: "entries_of_point A k c = entries_of_rows (Matrix_elements A) k c"
  by (simp add: entries_of_point_def entries_of_rows_def)

text \<open>
  Claim C8, as the code has it. For \<open>K\<close> points with a gravity value for each of them, Love
  number vectors \<^verbatim>\<open>hn\<close> and \<^verbatim>\<open>ln\<close> of more than \<^verbatim>\<open>maxDegree\<close> entries, and sizes that a
  \<^verbatim>\<open>UInt\<close> holds (\<open>(maxDegree+1)\<^sup>2 < 2\<^sup>6\<^sup>4\<close> and \<open>3 K < 2\<^sup>6\<^sup>4\<close>), \<^verbatim>\<open>deformationMatrix\<close> returns a
  matrix of \<open>3 K\<close> rows and \<open>(maxDegree+1)\<^sup>2\<close> columns. For every point \<open>k\<close> the rows \<open>3 k\<close>,
  \<open>3 k + 1\<close>, \<open>3 k + 2\<close> hold, in the column \<open>n\<^sup>2\<close>, the vector of the coefficient of degree \<open>n\<close>
  and order 0 and, for an order \<open>m\<close> from 1 to \<open>n\<close>, in the column \<open>n\<^sup>2 + 2 m - 1\<close> the vector
  of the cosine and in the column \<open>n\<^sup>2 + 2 m\<close> the vector of the sine coefficient. The
  columns assigned for a point are pairwise different and are all the columns of the
  matrix: every coefficient has exactly one column.
\<close>

theorem deformationMatrix_shape_and_columns:
  assumes "length point \<le> length gravity'"
    and "maxDegree < length hn" and "maxDegree < length ln'"
    and "(maxDegree + 1) * (maxDegree + 1) < 2 ^ 64" and "3 * length point < 2 ^ 64"
  shows "\<exists>A. deformationMatrix lib point gravity' hn ln' GM R maxDegree = Inr A
     \<and> Matrix_rows A = 3 * length point
     \<and> Matrix_columns A = (maxDegree + 1) * (maxDegree + 1)
     \<and> length (Matrix_elements A) = 3 * length point
     \<and> list_all (\<lambda>row. length row = (maxDegree + 1) * (maxDegree + 1)) (Matrix_elements A)
     \<and> (\<forall>k n. k < length point \<and> n \<le> maxDegree \<longrightarrow>
          disp_order0 lib (point ! k) (gravity' ! k) hn ln' GM R maxDegree n =
            Inr (entries_of_point A k (n * n))
          \<and> (\<forall>m. 1 \<le> m \<and> m \<le> n \<longrightarrow>
                disp_cos lib (point ! k) (gravity' ! k) hn ln' GM R maxDegree m n =
                  Inr (entries_of_point A k (n * n + 2 * m - 1))
              \<and> disp_sin lib (point ! k) (gravity' ! k) hn ln' GM R maxDegree m n =
                  Inr (entries_of_point A k (n * n + 2 * m))))
     \<and> distinct (map fst (columns_of_point lib p g hn ln' GM R maxDegree))
     \<and> set (map fst (columns_of_point lib p g hn ln' GM R maxDegree)) =
         {..<(maxDegree + 1) * (maxDegree + 1)}"
proof -
  define C where "C k = columns_of_point lib (point ! k) (gravity' ! k) hn ln' GM R maxDegree" for k
  define W where "W k = column_values (C k)" for k
  define E0 where "E0 = replicate (3 * length point) (replicate ((maxDegree + 1) * (maxDegree + 1)) (0::real))"
  define E where "E = foldl (\<lambda>E k. foldl (assign_rows k) E (W k)) E0 [0..<length point]"
  define A where "A = \<lparr>Matrix_rows = 3 * length point,
          Matrix_columns = (maxDegree + 1) * (maxDegree + 1), Matrix_elements = E\<rparr>"
  have A: "deformationMatrix lib point gravity' hn ln' GM R maxDegree = Inr A"
    unfolding A_def E_def E0_def W_def C_def by (rule deformationMatrix_fold [OF assms])
  have sh0: "has_shape (3 * length point) ((maxDegree + 1) * (maxDegree + 1)) E0"
    unfolding E0_def by (simp add: has_shape_def list_all_length)
  have sh: "has_shape (3 * length point) ((maxDegree + 1) * (maxDegree + 1)) E"
    if "has_shape (3 * length point) ((maxDegree + 1) * (maxDegree + 1)) E1"
      and "E = foldl (\<lambda>E k. foldl (assign_rows k) E (W k)) E1 ks" for E1 ks
    using that by (induction ks arbitrary: E1) (simp_all add: has_shape_foldl_assign_column)
  note sh = sh [OF sh0 E_def]
  have dist: "distinct (map fst (W k))" for k
    unfolding W_def C_def map_fst_column_values by (rule distinct_columns_of_point [OF assms(4)])
  have written: "entries_of_point A k j = d"
    if "k < length point" "(j, Inr d) \<in> set (C k)" for k j d
  proof -
    from that(2) have w: "(j, d) \<in> set (W k)"
      unfolding W_def by (rule in_column_values)
    from that(2) have "j \<in> set (map fst (C k))" by force
    then have j: "j < (maxDegree + 1) * (maxDegree + 1)"
      unfolding C_def set_columns_of_point [OF assms(4)] by simp
    from that(1) have k: "k \<in> set [0..<length point]" "3 * k + 2 < 3 * length point"
      by simp_all
    have d: "distinct [0..<length point]" by simp
    have "entries_of_rows E k j = d"
      unfolding E_def
      by (rule entries_points_written [where W = W, OF k(1) d sh0 k(2) w j dist])
    then show ?thesis
      by (simp add: entries_of_point_rows A_def)
  qed
  have idx: "UInt (n * n) = n * n" "UInt (n * n + 2 * m - 1) = n * n + 2 * m - 1"
    "UInt (n * n + 2 * m) = n * n + 2 * m" if "n \<le> maxDegree" "m \<le> n" for n m
  proof -
    from column_index_small(2) [OF that assms(4)] have b: "n * n + 2 * m < 2 ^ 64" .
    then have "n * n < 2 ^ 64" "n * n + 2 * m - 1 < 2 ^ 64" by simp_all
    with b show "UInt (n * n) = n * n" "UInt (n * n + 2 * m - 1) = n * n + 2 * m - 1"
      "UInt (n * n + 2 * m) = n * n + 2 * m"
      by (simp_all add: UInt_id)
  qed
  have order0: "(n * n, disp_order0 lib (point ! k) (gravity' ! k) hn ln' GM R maxDegree n) \<in> set (C k)"
    if "n \<le> maxDegree" for k n
  proof -
    have "(UInt (n * n), disp_order0 lib (point ! k) (gravity' ! k) hn ln' GM R maxDegree n) \<in> set (C k)"
      using that unfolding C_def columns_of_point_def set_append
      by (intro UnI1) (simp del: upt_Suc)
    with idx(1) [OF that le_refl] show ?thesis by simp
  qed
  have others: "(n * n + 2 * m - 1, disp_cos lib (point ! k) (gravity' ! k) hn ln' GM R maxDegree m n) \<in> set (C k)"
    "(n * n + 2 * m, disp_sin lib (point ! k) (gravity' ! k) hn ln' GM R maxDegree m n) \<in> set (C k)"
    if "1 \<le> m" "m \<le> n" "n \<le> maxDegree" for k m n
  proof -
    have n: "n \<in> set [m..<maxDegree + 1]" and m: "m \<in> set [1..<maxDegree + 1]"
      using that by (simp_all del: upt_Suc)
    have "(UInt (n * n + 2 * m - 1), disp_cos lib (point ! k) (gravity' ! k) hn ln' GM R maxDegree m n) \<in> set (C k)"
      unfolding C_def columns_of_point_def set_append
      by (intro UnI2 in_concat_map [OF m] in_concat_map [OF n]) simp
    with idx(2) [OF that(3,2)]
    show "(n * n + 2 * m - 1, disp_cos lib (point ! k) (gravity' ! k) hn ln' GM R maxDegree m n) \<in> set (C k)"
      by simp
    have "(UInt (n * n + 2 * m), disp_sin lib (point ! k) (gravity' ! k) hn ln' GM R maxDegree m n) \<in> set (C k)"
      unfolding C_def columns_of_point_def set_append
      by (intro UnI2 in_concat_map [OF m] in_concat_map [OF n]) simp
    with idx(3) [OF that(3,2)]
    show "(n * n + 2 * m, disp_sin lib (point ! k) (gravity' ! k) hn ln' GM R maxDegree m n) \<in> set (C k)"
      by simp
  qed
  have len: "n < length hn" "n < length ln'" if "n \<le> maxDegree" for n
    using that assms(2,3) by simp_all
  from sh have "length (Matrix_elements A) = 3 * length point"
    and "list_all (\<lambda>row. length row = (maxDegree + 1) * (maxDegree + 1)) (Matrix_elements A)"
    by (simp_all add: has_shape_def A_def)
  moreover have "Matrix_rows A = 3 * length point"
    and "Matrix_columns A = (maxDegree + 1) * (maxDegree + 1)"
    by (simp_all add: A_def)
  moreover have "disp_order0 lib (point ! k) (gravity' ! k) hn ln' GM R maxDegree n =
            Inr (entries_of_point A k (n * n))"
    if "k < length point" "n \<le> maxDegree" for k n
  proof -
    from disp_Inr(1) [OF len [OF that(2)]]
    obtain d where d: "disp_order0 lib (point ! k) (gravity' ! k) hn ln' GM R maxDegree n = Inr d"
      by blast
    from written [OF that(1) order0 [OF that(2), of k, unfolded d]] d show ?thesis by simp
  qed
  moreover have "disp_cos lib (point ! k) (gravity' ! k) hn ln' GM R maxDegree m n =
                  Inr (entries_of_point A k (n * n + 2 * m - 1))"
    "disp_sin lib (point ! k) (gravity' ! k) hn ln' GM R maxDegree m n =
                  Inr (entries_of_point A k (n * n + 2 * m))"
    if "k < length point" "n \<le> maxDegree" "1 \<le> m" "m \<le> n" for k n m
  proof -
    from disp_Inr(2) [OF len [OF that(2)]]
    obtain d where d: "disp_cos lib (point ! k) (gravity' ! k) hn ln' GM R maxDegree m n = Inr d"
      by blast
    from written [OF that(1) others(1) [OF that(3,4,2), of k, unfolded d]] d
    show "disp_cos lib (point ! k) (gravity' ! k) hn ln' GM R maxDegree m n =
                  Inr (entries_of_point A k (n * n + 2 * m - 1))"
      by simp
    from disp_Inr(3) [OF len [OF that(2)]]
    obtain d' where d': "disp_sin lib (point ! k) (gravity' ! k) hn ln' GM R maxDegree m n = Inr d'"
      by blast
    from written [OF that(1) others(2) [OF that(3,4,2), of k, unfolded d']] d'
    show "disp_sin lib (point ! k) (gravity' ! k) hn ln' GM R maxDegree m n =
                  Inr (entries_of_point A k (n * n + 2 * m))"
      by simp
  qed
  moreover note A distinct_columns_of_point [OF assms(4), of lib p g hn ln' GM R]
    set_columns_of_point [OF assms(4), of lib p g hn ln' GM R]
  ultimately show ?thesis by (intro exI [of _ A]) simp
qed

text \<open>
  Claim C8 is stated for every list of gravity values. \<^verbatim>\<open>gravity.at(k)\<close> throws for a point
  without a gravity value: with one point and no gravity value no matrix is returned.
\<close>

theorem deformationMatrix_needs_gravity_of_every_point:
  "deformationMatrix example_harmonics [Vector3d 1 0 0] [] [2] [5] 1 1 0 = Inl std_out_of_range"
  by (simp add: deformationMatrix_def vector_at_def)

theorem deformationMatrix_shape_and_columns_witness:
  "length [Vector3d 1 0 0] \<le> length [1::real]
   \<and> (1::nat) < length [2::real, 3] \<and> (1::nat) < length [5::real, 7]
   \<and> ((1::nat) + 1) * (1 + 1) < 2 ^ 64 \<and> 3 * length [Vector3d 1 0 0] < 2 ^ 64
   \<and> (\<exists>A. deformationMatrix example_harmonics [Vector3d 1 0 0] [1] [2, 3] [5, 7] 1 1 1 = Inr A
         \<and> Matrix_rows A = 3 \<and> Matrix_columns A = 4
         \<and> length (Matrix_elements A) = 3
         \<and> list_all (\<lambda>row. length row = 4) (Matrix_elements A)
         \<and> disp_order0 example_harmonics (Vector3d 1 0 0) 1 [2, 3] [5, 7] 1 1 1 0 =
             Inr (entries_of_point A 0 0)
         \<and> disp_cos example_harmonics (Vector3d 1 0 0) 1 [2, 3] [5, 7] 1 1 1 1 1 =
             Inr (entries_of_point A 0 2)
         \<and> disp_sin example_harmonics (Vector3d 1 0 0) 1 [2, 3] [5, 7] 1 1 1 1 1 =
             Inr (entries_of_point A 0 3))"
proof -
  have h: "length [Vector3d 1 0 0] \<le> length [1::real]"
    and h1: "(1::nat) < length [2::real, 3]" and h2: "(1::nat) < length [5::real, 7]"
    and h3: "((1::nat) + 1) * (1 + 1) < 2 ^ 64" and h4: "3 * length [Vector3d 1 0 0] < 2 ^ 64"
    by simp_all
  from deformationMatrix_shape_and_columns [OF h h1 h2 h3 h4, of example_harmonics 1 1
      "Vector3d 1 0 0" 1]
  obtain A where A: "deformationMatrix example_harmonics [Vector3d 1 0 0] [1] [2, 3] [5, 7] 1 1 1 = Inr A"
    and r: "Matrix_rows A = 3 * length [Vector3d 1 0 0]"
    and c: "Matrix_columns A = (1 + 1) * (1 + 1)"
    and len: "length (Matrix_elements A) = 3 * length [Vector3d 1 0 0]"
    and rows: "list_all (\<lambda>row. length row = (1 + 1) * (1 + 1)) (Matrix_elements A)"
    and col: "\<forall>k n. k < length [Vector3d 1 0 0] \<and> n \<le> 1 \<longrightarrow>
          disp_order0 example_harmonics ([Vector3d 1 0 0] ! k) ([1] ! k) [2, 3] [5, 7] 1 1 1 n =
            Inr (entries_of_point A k (n * n))
          \<and> (\<forall>m. 1 \<le> m \<and> m \<le> n \<longrightarrow>
                disp_cos example_harmonics ([Vector3d 1 0 0] ! k) ([1] ! k) [2, 3] [5, 7] 1 1 1 m n =
                  Inr (entries_of_point A k (n * n + 2 * m - 1))
              \<and> disp_sin example_harmonics ([Vector3d 1 0 0] ! k) ([1] ! k) [2, 3] [5, 7] 1 1 1 m n =
                  Inr (entries_of_point A k (n * n + 2 * m)))"
    by blast
  from r c len have dims: "Matrix_rows A = 3" "Matrix_columns A = 4" "length (Matrix_elements A) = 3"
    by simp_all
  have "(1 + 1) * (1 + 1) = (4::nat)" by simp
  with rows have rows': "list_all (\<lambda>row. length row = 4) (Matrix_elements A)" by (simp only:)
  have p0: "0 < length [Vector3d 1 0 0] \<and> 0 \<le> (1::nat)"
    and p1: "0 < length [Vector3d 1 0 0] \<and> 1 \<le> (1::nat)"
    and p2: "1 \<le> (1::nat) \<and> (1::nat) \<le> 1"
    by simp_all
  note c0 = col [rule_format, OF p0, THEN conjunct1]
  note c1 = col [rule_format, OF p1, THEN conjunct2, rule_format, OF p2]
  from c0 c1 have "disp_order0 example_harmonics (Vector3d 1 0 0) 1 [2, 3] [5, 7] 1 1 1 0 =
             Inr (entries_of_point A 0 0)"
    "disp_cos example_harmonics (Vector3d 1 0 0) 1 [2, 3] [5, 7] 1 1 1 1 1 =
             Inr (entries_of_point A 0 2)"
    "disp_sin example_harmonics (Vector3d 1 0 0) 1 [2, 3] [5, 7] 1 1 1 1 1 =
             Inr (entries_of_point A 0 3)"
    by (simp_all add: numeral_2_eq_2 numeral_3_eq_3)
  with h h1 h2 h3 h4 A dims rows' show ?thesis by blast
qed

subsection \<open>The batch deformation\<close>

lemma added_refl: "added {} D disp disp"
  by (simp add: added_def)

lemma added_trans:
  assumes "added S D a b" and "added T D b c" and "S \<inter> T = {}"
  shows "added (S \<union> T) D a c"
  using assms unfolding added_def by (auto simp: disjoint_iff)

lemma added_add_displacement:
  assumes "add_displacement i Ax k disp = Inr disp'" and "D k i = [displacement_of Ax k]"
  shows "added {(k, i)} D disp disp'" and "k < length disp" and "i < length (disp ! k)"
  using assms
  by (auto simp: add_displacement_def vector_at_def added_def nth_list_update split: if_splits)

lemma added_points:
  assumes "for_each ks (add_displacement i Ax) disp = Inr disp'" and "distinct ks"
    and "\<And>k. k \<in> set ks \<Longrightarrow> D k i = [displacement_of Ax k]"
  shows "added (set ks \<times> {i}) D disp disp'
       \<and> (\<forall>k\<in>set ks. k < length disp \<and> i < length (disp ! k))"
  using assms
proof (induction ks arbitrary: disp)
  case Nil
  then show ?case by (simp add: added_refl)
next
  case (Cons k ks)
  from Cons.prems(1) obtain d1 where d1: "add_displacement i Ax k disp = Inr d1"
    and rest: "for_each ks (add_displacement i Ax) d1 = Inr disp'"
    by (auto split: sum.splits)
  from Cons.prems have dk: "D k i = [displacement_of Ax k]" and dist: "distinct ks" and k: "k \<notin> set ks"
    and D: "\<And>k. k \<in> set ks \<Longrightarrow> D k i = [displacement_of Ax k]"
    by auto
  note step = added_add_displacement [where D = D, OF d1 dk]
  from Cons.IH [OF rest dist D]
  have ih: "added (set ks \<times> {i}) D d1 disp'"
    "\<forall>k\<in>set ks. k < length d1 \<and> i < length (d1 ! k)"
    by simp_all
  have "added ({(k, i)} \<union> set ks \<times> {i}) D disp disp'"
    by (rule added_trans [OF step(1) ih(1)]) (use k in auto)
  moreover
  from step(1) have len: "length d1 = length disp"
    and rows: "\<forall>k'<length disp. length (d1 ! k') = length (disp ! k')"
    by (simp_all add: added_def)
  with ih(2) step(2,3) have "\<forall>k'\<in>set (k # ks). k' < length disp \<and> i < length (disp ! k')"
    by auto
  ultimately show ?case by simp
qed

lemma added_seq:
  assumes "added S D1 a b" and "added S D2 b c"
  shows "added S (\<lambda>k i. D1 k i @ D2 k i) a c"
  using assms unfolding added_def by auto

lemma added_epochs:
  assumes "for_each epochs
            (\<lambda>i disp'. case ax i of Inl e \<Rightarrow> Inl e
                       | Inr Ax \<Rightarrow> for_each [0..<K] (add_displacement i Ax) disp')
            disp = Inr disp'"
    and "distinct epochs"
    and "\<And>i k Ax. i \<in> set epochs \<Longrightarrow> ax i = Inr Ax \<Longrightarrow> D k i = [displacement_of Ax k]"
  shows "added ({..<K} \<times> set epochs) D disp disp'
       \<and> (\<forall>i\<in>set epochs. (\<exists>Ax. ax i = Inr Ax) \<and> (\<forall>k<K. k < length disp \<and> i < length (disp ! k)))"
  using assms
proof (induction epochs arbitrary: disp)
  case Nil
  then show ?case by (simp add: added_refl)
next
  case (Cons i epochs)
  from Cons.prems(1) obtain Ax d1 where Ax: "ax i = Inr Ax"
    and d1: "for_each [0..<K] (add_displacement i Ax) disp = Inr d1"
    and rest: "for_each epochs
            (\<lambda>i disp'. case ax i of Inl e \<Rightarrow> Inl e
                       | Inr Ax \<Rightarrow> for_each [0..<K] (add_displacement i Ax) disp')
            d1 = Inr disp'"
    by (auto split: sum.splits)
  from Cons.prems have dist: "distinct epochs" and i: "i \<notin> set epochs"
    and D: "\<And>i k Ax. i \<in> set epochs \<Longrightarrow> ax i = Inr Ax \<Longrightarrow> D k i = [displacement_of Ax k]"
    and Di: "\<And>k. D k i = [displacement_of Ax k]"
    using Ax by auto
  from added_points [where D = D, OF d1 _ Di]
  have step: "added ({..<K} \<times> {i}) D disp d1" "\<forall>k<K. k < length disp \<and> i < length (disp ! k)"
    by (simp_all add: atLeast0LessThan)
  from Cons.IH [OF rest dist D]
  have ih: "added ({..<K} \<times> set epochs) D d1 disp'"
    "\<forall>i\<in>set epochs. (\<exists>Ax. ax i = Inr Ax) \<and> (\<forall>k<K. k < length d1 \<and> i < length (d1 ! k))"
    by simp_all
  have "added ({..<K} \<times> {i} \<union> {..<K} \<times> set epochs) D disp disp'"
    by (rule added_trans [OF step(1) ih(1)]) (use i in auto)
  then have "added ({..<K} \<times> set (i # epochs)) D disp disp'"
    by (simp add: Sigma_Un_distrib2 [symmetric] del: Sigma_Un_distrib2)
  moreover
  from step(1) have len: "length d1 = length disp"
    and rows: "\<forall>k'<length disp. length (d1 ! k') = length (disp ! k')"
    by (simp_all add: added_def)
  with ih(2) step(2) Ax
  have "\<forall>i'\<in>set (i # epochs). (\<exists>Ax. ax i' = Inr Ax) \<and> (\<forall>k<K. k < length disp \<and> i' < length (disp ! k))"
    by auto
  ultimately show ?case by blast
qed

lemma TidesBase_batch_empty:
  "time = [] \<or> point = [] \<Longrightarrow>
   TidesBase_deformation_batch lib self time point rotEarth rotation ephemerides gravity' hn ln' disp = Inr disp"
  by (auto simp: TidesBase_deformation_batch_def)

lemma TidesBase_batch_added:
  assumes "TidesBase_deformation_batch lib self time point rotEarth rotation ephemerides gravity' hn ln' disp
             = Inr disp'"
  shows "added ({..<length point} \<times> {..<length time})
           (\<lambda>k i. increments (TidesBase_displacement lib self time point rotEarth rotation ephemerides
                                  gravity' hn ln' k i)) disp disp'
       \<and> (\<forall>k<length point. \<forall>i<length time. k < length disp \<and> i < length (disp ! k)
             \<and> (\<exists>d. TidesBase_displacement lib self time point rotEarth rotation ephemerides
                        gravity' hn ln' k i = Inr d))"
proof (cases "length time = 0 \<or> length point = 0")
  case True
  with assms have "disp' = disp"
    by (auto simp: TidesBase_deformation_batch_def)
  with True show ?thesis
    by (auto simp: added_refl)
next
  case False
  with assms obtain A where A: "batch_matrix lib self time point rotEarth rotation ephemerides gravity' hn ln' = Inr A"
    and loop: "for_each [0..<length time]
               (\<lambda>i disp'.
                  case epoch_Ax lib self time rotEarth rotation ephemerides A i of
                    Inl e \<Rightarrow> Inl e
                  | Inr Ax \<Rightarrow> for_each [0..<length point] (add_displacement i Ax) disp')
               disp = Inr disp'"
    by (auto simp: TidesBase_deformation_batch_def split: sum.splits)
  have D: "increments (TidesBase_displacement lib self time point rotEarth rotation ephemerides
                                  gravity' hn ln' k i) = [displacement_of Ax k]"
    if "epoch_Ax lib self time rotEarth rotation ephemerides A i = Inr Ax" for i k Ax
    using that A by (simp add: TidesBase_displacement_def)
  from added_epochs [where D = "\<lambda>k i. increments (TidesBase_displacement lib self time point rotEarth
       rotation ephemerides gravity' hn ln' k i)", OF loop _ D]
  have *: "added ({..<length point} \<times> {..<length time})
           (\<lambda>k i. increments (TidesBase_displacement lib self time point rotEarth rotation ephemerides
                                  gravity' hn ln' k i)) disp disp'"
    and **: "\<forall>i<length time. (\<exists>Ax. epoch_Ax lib self time rotEarth rotation ephemerides A i = Inr Ax)
          \<and> (\<forall>k<length point. k < length disp \<and> i < length (disp ! k))"
    by (simp_all add: atLeast0LessThan)
  have "\<exists>d. TidesBase_displacement lib self time point rotEarth rotation ephemerides
                        gravity' hn ln' k i = Inr d" if "i < length time" for k i
    using ** that A by (auto simp: TidesBase_displacement_def)
  with * ** show ?thesis by blast
qed

lemma Tides_batch_added:
  assumes "\<forall>tide\<in>set tides. deformation_batch tide = TidesBase_deformation_batch lib tide"
    and "Tides_deformation_batch tides time point rotEarth rotation ephemerides gravity' hn ln' disp
           = Inr disp'"
  shows "added ({..<length point} \<times> {..<length time})
           (\<lambda>k i. concat (map (\<lambda>tide. increments (TidesBase_displacement lib tide time point rotEarth
                       rotation ephemerides gravity' hn ln' k i)) tides)) disp disp'
       \<and> (\<forall>tide\<in>set tides. \<forall>k<length point. \<forall>i<length time.
             \<exists>d. TidesBase_displacement lib tide time point rotEarth rotation ephemerides
                        gravity' hn ln' k i = Inr d)"
  using assms
proof (induction tides arbitrary: disp)
  case Nil
  then show ?case
    by (simp add: Tides_deformation_batch_def added_def)
next
  case (Cons tide tides)
  from Cons.prems obtain d1 where
    d1: "TidesBase_deformation_batch lib tide time point rotEarth rotation ephemerides gravity' hn ln' disp
           = Inr d1"
    and rest: "Tides_deformation_batch tides time point rotEarth rotation ephemerides gravity' hn ln' d1
           = Inr disp'"
    and base: "\<forall>tide\<in>set tides. deformation_batch tide = TidesBase_deformation_batch lib tide"
    by (auto simp: Tides_deformation_batch_def split: sum.splits)
  from TidesBase_batch_added [OF d1]
  have step: "added ({..<length point} \<times> {..<length time})
           (\<lambda>k i. increments (TidesBase_displacement lib tide time point rotEarth rotation ephemerides
                                  gravity' hn ln' k i)) disp d1"
    "\<forall>k<length point. \<forall>i<length time.
        \<exists>d. TidesBase_displacement lib tide time point rotEarth rotation ephemerides
                        gravity' hn ln' k i = Inr d"
    by simp_all
  from Cons.IH [OF base rest]
  have ih: "added ({..<length point} \<times> {..<length time})
           (\<lambda>k i. concat (map (\<lambda>tide. increments (TidesBase_displacement lib tide time point rotEarth
                       rotation ephemerides gravity' hn ln' k i)) tides)) d1 disp'"
    "\<forall>tide\<in>set tides. \<forall>k<length point. \<forall>i<length time.
             \<exists>d. TidesBase_displacement lib tide time point rotEarth rotation ephemerides
                        gravity' hn ln' k i = Inr d"
    by simp_all
  from added_seq [OF step(1) ih(1)] step(2) ih(2) show ?case
    by simp
qed

lemma Tides_batch_empty:
  assumes "\<forall>tide\<in>set tides. deformation_batch tide = TidesBase_deformation_batch lib tide"
    and "time = [] \<or> point = []"
  shows "Tides_deformation_batch tides time point rotEarth rotation ephemerides gravity' hn ln' disp
           = Inr disp"
  using assms(1) unfolding Tides_deformation_batch_def
  by (induction tides) (simp_all add: TidesBase_batch_empty [OF assms(2)])

lemma increments_all_Inr:
  assumes "\<forall>x\<in>set xs. \<exists>d. f x = Inr d"
  shows "list_all2 (\<lambda>x d. f x = Inr d) xs (concat (map (\<lambda>x. increments (f x)) xs))"
  using assms by (induction xs) auto

text \<open>The example: one point, two epochs, one tide.\<close>

lemma TidesBase_deformation_batch_cong:
  assumes "sphericalHarmonics a = sphericalHarmonics b"
  shows "TidesBase_deformation_batch lib a = TidesBase_deformation_batch lib b"
  by (intro ext)
     (simp add: TidesBase_deformation_batch_def batch_matrix_def epoch_Ax_def assms cong: sum.case_cong)

lemma example_tide_of_base:
  "deformation_batch (example_tide_of field) =
   TidesBase_deformation_batch example_harmonics (example_tide_of field)"
proof -
  have a: "deformation_batch (example_tide_of field) =
           TidesBase_deformation_batch example_harmonics (example_tide_virtual field)"
    by (simp add: example_tide_of_def)
  have "sphericalHarmonics (example_tide_virtual field) = sphericalHarmonics (example_tide_of field)"
    by (simp add: example_tide_of_def)
  then have b: "TidesBase_deformation_batch example_harmonics (example_tide_virtual field) =
                TidesBase_deformation_batch example_harmonics (example_tide_of field)"
    by (rule TidesBase_deformation_batch_cong)
  from a b show ?thesis by (rule trans)
qed

lemma example_tide_base:
  "deformation_batch example_tide = TidesBase_deformation_batch example_harmonics example_tide"
  unfolding example_tide_def by (rule example_tide_of_base)

lemma example_harmonics_of:
  "sphericalHarmonics (example_tide_of field) t r e ep maxDegree minDegree GM R = Inr (field t)"
  by (simp add: example_tide_of_def example_tide_virtual_def)

lemma example_Matrix_new:
  "Matrix_new 3 (Suc 0) = \<lparr>Matrix_rows = 3, Matrix_columns = Suc 0, Matrix_elements = [[0], [0], [0]]\<rparr>"
  by (simp add: Matrix_new_def numeral_3_eq_3)

lemma example_columns:
  "columns_of_point example_harmonics (Vector3d 1 0 0) 1 [2] [5] GM 1 0 = [(0, Inr (Vector3d (2 * GM) 0 0))]"
  by (simp add: columns_of_point_def disp_order0_def disp_of_def normalize_v_def example_harmonics_def
      Vector_element_def UInt_def)

lemma example_assign_column:
  "assign_column 0 (0, Inr (Vector3d x y z))
     \<lparr>Matrix_rows = 3, Matrix_columns = Suc 0, Matrix_elements = [[0], [0], [0]]\<rparr> =
   Inr \<lparr>Matrix_rows = 3, Matrix_columns = Suc 0, Matrix_elements = [[x], [y], [z]]\<rparr>"
  by (simp add: assign_column_def assign_def assign_elements_def UInt_def)

lemma example_matrix:
  "deformationMatrix example_harmonics [Vector3d 1 0 0] [1] [2] [5] 1 1 0 =
     Inr \<lparr>Matrix_rows = 3, Matrix_columns = 1, Matrix_elements = [[2], [0], [0]]\<rparr>"
proof -
  have "UInt (3 * length [Vector3d 1 0 0]) = 3" "UInt ((0 + 1) * (0 + 1)) = 1"
    by (simp_all add: UInt_def)
  then show ?thesis
    unfolding deformationMatrix_def
    using example_columns [of 1]
    by (simp add: vector_at_def example_Matrix_new example_assign_column)
qed

lemma example_batch_from:
  "TidesBase_deformation_batch example_harmonics example_tide [2, 3] [Vector3d 1 0 0] [(), ()] () ()
     [1] [2] [5] [[a, b]] = Inr [[vadd a (Vector3d 10 0 0), vadd b (Vector3d 12 0 0)]]"
proof -
  define A where "A = \<lparr>Matrix_rows = 3, Matrix_columns = 1, Matrix_elements = [[2], [0], [0]]\<rparr>"
  have m: "batch_matrix example_harmonics example_tide [2, 3] [Vector3d 1 0 0] [(), ()] () () [1] [2] [5]
            = Inr A"
    using example_matrix
    by (simp add: A_def batch_matrix_def vector_at_def example_tide_def example_harmonics_of
        example_harmonics_def)
  have e0: "epoch_Ax example_harmonics example_tide [2, 3] [(), ()] () () A 0 = Inr [10, 0, 0]"
    and e1: "epoch_Ax example_harmonics example_tide [2, 3] [(), ()] () () A (Suc 0) = Inr [12, 0, 0]"
    by (simp_all add: A_def epoch_Ax_def vector_at_def example_tide_def example_harmonics_of
        example_harmonics_def matrix_times_vector_def)
  have u: "[0..<length [2::nat, 3]] = [0, Suc 0]" "[0..<length [Vector3d 1 0 0]] = [0]"
    by (simp_all add: upt_rec)
  show ?thesis
    unfolding TidesBase_deformation_batch_def m u
    by (simp add: e0 e1 add_displacement_def vector_at_def displacement_of_def)
qed

lemma example_batch:
  "TidesBase_deformation_batch example_harmonics example_tide [2, 3] [Vector3d 1 0 0] [(), ()] () ()
     [1] [2] [5] [[Vector3d 1 1 1, Vector3d 2 2 2]] = Inr [[Vector3d 11 1 1, Vector3d 14 2 2]]"
  by (simp add: example_batch_from)

lemma example_aggregator:
  "Tides_deformation_batch [example_tide, example_tide] [2, 3] [Vector3d 1 0 0] [(), ()] () ()
     [1] [2] [5] [[Vector3d 1 1 1, Vector3d 2 2 2]] = Inr [[Vector3d 21 1 1, Vector3d 26 2 2]]"
  by (simp add: Tides_deformation_batch_def example_tide_base example_batch_from)

text \<open>
  Claim C10. The batch deformation of the base class returns \<^verbatim>\<open>disp\<close> as it was when the
  list of times or the list of points is empty. When it returns, the array has the sizes
  it had, the entry of every point \<open>k\<close> at every epoch \<open>i\<close> is the entry before plus the
  displacement of the tide for that point and epoch, and every other entry is as before.
  For an aggregator whose tides use the batch deformation of the base class the same
  holds with the displacements of all tides added in the order of the list.
\<close>

theorem batch_deformation_accumulates:
  "(time = [] \<or> point = [] \<longrightarrow>
      TidesBase_deformation_batch lib self time point rotEarth rotation ephemerides gravity' hn ln' disp
        = Inr disp)
   \<and> (TidesBase_deformation_batch lib self time point rotEarth rotation ephemerides gravity' hn ln' disp
        = Inr disp' \<longrightarrow>
        length disp' = length disp
      \<and> (\<forall>k<length disp. length (disp' ! k) = length (disp ! k))
      \<and> (\<forall>k i. k < length point \<and> i < length time \<longrightarrow>
            k < length disp \<and> i < length (disp ! k)
          \<and> (\<exists>d. TidesBase_displacement lib self time point rotEarth rotation ephemerides
                     gravity' hn ln' k i = Inr d
                 \<and> disp' ! k ! i = vadd (disp ! k ! i) d))
      \<and> (\<forall>k i. k < length disp \<and> i < length (disp ! k) \<and> \<not> (k < length point \<and> i < length time) \<longrightarrow>
            disp' ! k ! i = disp ! k ! i))
   \<and> ((\<forall>tide\<in>set tides. deformation_batch tide = TidesBase_deformation_batch lib tide) \<longrightarrow>
        (time = [] \<or> point = [] \<longrightarrow>
           Tides_deformation_batch tides time point rotEarth rotation ephemerides gravity' hn ln' disp
             = Inr disp)
      \<and> (Tides_deformation_batch tides time point rotEarth rotation ephemerides gravity' hn ln' disp
             = Inr disp'' \<longrightarrow>
           length disp'' = length disp
         \<and> (\<forall>k<length disp. length (disp'' ! k) = length (disp ! k))
         \<and> (\<forall>k i. k < length disp \<and> i < length (disp ! k) \<longrightarrow>
               (if k < length point \<and> i < length time
                then \<exists>ds. list_all2 (\<lambda>tide d. TidesBase_displacement lib tide time point rotEarth
                               rotation ephemerides gravity' hn ln' k i = Inr d) tides ds
                          \<and> disp'' ! k ! i = foldl vadd (disp ! k ! i) ds
                else disp'' ! k ! i = disp ! k ! i))))"
proof (intro conjI impI)
  assume "time = [] \<or> point = []"
  then show "TidesBase_deformation_batch lib self time point rotEarth rotation ephemerides gravity' hn ln' disp
        = Inr disp"
    by (rule TidesBase_batch_empty)
next
  assume "TidesBase_deformation_batch lib self time point rotEarth rotation ephemerides gravity' hn ln' disp
        = Inr disp'"
  from TidesBase_batch_added [OF this]
  have a: "added ({..<length point} \<times> {..<length time})
           (\<lambda>k i. increments (TidesBase_displacement lib self time point rotEarth rotation ephemerides
                                  gravity' hn ln' k i)) disp disp'"
    and r: "\<forall>k<length point. \<forall>i<length time. k < length disp \<and> i < length (disp ! k)
             \<and> (\<exists>d. TidesBase_displacement lib self time point rotEarth rotation ephemerides
                        gravity' hn ln' k i = Inr d)"
    by simp_all
  from a show "length disp' = length disp"
    and "\<forall>k<length disp. length (disp' ! k) = length (disp ! k)"
    by (simp_all add: added_def)
  show "\<forall>k i. k < length point \<and> i < length time \<longrightarrow>
            k < length disp \<and> i < length (disp ! k)
          \<and> (\<exists>d. TidesBase_displacement lib self time point rotEarth rotation ephemerides
                     gravity' hn ln' k i = Inr d
                 \<and> disp' ! k ! i = vadd (disp ! k ! i) d)"
  proof (intro allI impI)
    fix k i assume ki: "k < length point \<and> i < length time"
    with r obtain d where k: "k < length disp" and i: "i < length (disp ! k)"
      and d: "TidesBase_displacement lib self time point rotEarth rotation ephemerides
                        gravity' hn ln' k i = Inr d"
      by blast
    from a k i ki have "disp' ! k ! i = vadd (disp ! k ! i) d"
      by (simp add: added_def d)
    with k i d show "k < length disp \<and> i < length (disp ! k)
          \<and> (\<exists>d. TidesBase_displacement lib self time point rotEarth rotation ephemerides
                     gravity' hn ln' k i = Inr d
                 \<and> disp' ! k ! i = vadd (disp ! k ! i) d)"
      by blast
  qed
  from a show "\<forall>k i. k < length disp \<and> i < length (disp ! k) \<and> \<not> (k < length point \<and> i < length time) \<longrightarrow>
            disp' ! k ! i = disp ! k ! i"
    by (auto simp: added_def)
next
  assume base: "\<forall>tide\<in>set tides. deformation_batch tide = TidesBase_deformation_batch lib tide"
    and "time = [] \<or> point = []"
  then show "Tides_deformation_batch tides time point rotEarth rotation ephemerides gravity' hn ln' disp
             = Inr disp"
    by (rule Tides_batch_empty)
next
  assume base: "\<forall>tide\<in>set tides. deformation_batch tide = TidesBase_deformation_batch lib tide"
    and run: "Tides_deformation_batch tides time point rotEarth rotation ephemerides gravity' hn ln' disp
             = Inr disp''"
  from Tides_batch_added [OF base run]
  have a: "added ({..<length point} \<times> {..<length time})
           (\<lambda>k i. concat (map (\<lambda>tide. increments (TidesBase_displacement lib tide time point rotEarth
                       rotation ephemerides gravity' hn ln' k i)) tides)) disp disp''"
    and r: "\<forall>tide\<in>set tides. \<forall>k<length point. \<forall>i<length time.
             \<exists>d. TidesBase_displacement lib tide time point rotEarth rotation ephemerides
                        gravity' hn ln' k i = Inr d"
    by simp_all
  from a show "length disp'' = length disp"
    and "\<forall>k<length disp. length (disp'' ! k) = length (disp ! k)"
    by (simp_all add: added_def)
  show "\<forall>k i. k < length disp \<and> i < length (disp ! k) \<longrightarrow>
               (if k < length point \<and> i < length time
                then \<exists>ds. list_all2 (\<lambda>tide d. TidesBase_displacement lib tide time point rotEarth
                               rotation ephemerides gravity' hn ln' k i = Inr d) tides ds
                          \<and> disp'' ! k ! i = foldl vadd (disp ! k ! i) ds
                else disp'' ! k ! i = disp ! k ! i)"
  proof (intro allI impI)
    fix k i assume ki: "k < length disp \<and> i < length (disp ! k)"
    show "if k < length point \<and> i < length time
                then \<exists>ds. list_all2 (\<lambda>tide d. TidesBase_displacement lib tide time point rotEarth
                               rotation ephemerides gravity' hn ln' k i = Inr d) tides ds
                          \<and> disp'' ! k ! i = foldl vadd (disp ! k ! i) ds
                else disp'' ! k ! i = disp ! k ! i"
    proof (cases "k < length point \<and> i < length time")
      case True
      with r have "\<forall>tide\<in>set tides. \<exists>d. TidesBase_displacement lib tide time point rotEarth rotation
                      ephemerides gravity' hn ln' k i = Inr d"
        by blast
      from increments_all_Inr [OF this]
      have "list_all2 (\<lambda>tide d. TidesBase_displacement lib tide time point rotEarth
                               rotation ephemerides gravity' hn ln' k i = Inr d) tides
              (concat (map (\<lambda>tide. increments (TidesBase_displacement lib tide time point rotEarth
                       rotation ephemerides gravity' hn ln' k i)) tides))" .
      moreover from a ki True
      have "disp'' ! k ! i = foldl vadd (disp ! k ! i)
              (concat (map (\<lambda>tide. increments (TidesBase_displacement lib tide time point rotEarth
                       rotation ephemerides gravity' hn ln' k i)) tides))"
        by (simp add: added_def)
      ultimately show ?thesis using True by auto
    next
      case False
      with a ki show ?thesis by (auto simp: added_def)
    qed
  qed
qed

theorem batch_deformation_accumulates_witness:
  "TidesBase_deformation_batch example_harmonics example_tide [2, 3] [Vector3d 1 0 0] [(), ()] () ()
     [1] [2] [5] [[Vector3d 1 1 1, Vector3d 2 2 2]] = Inr [[Vector3d 11 1 1, Vector3d 14 2 2]]
   \<and> TidesBase_displacement example_harmonics example_tide [2, 3] [Vector3d 1 0 0] [(), ()] () ()
       [1] [2] [5] 0 0 = Inr (Vector3d 10 0 0)
   \<and> [[Vector3d 11 1 1, Vector3d 14 2 2]] ! 0 ! 0 = vadd ([[Vector3d 1 1 1, Vector3d 2 2 2]] ! 0 ! 0) (Vector3d 10 0 0)
   \<and> TidesBase_deformation_batch example_harmonics example_tide [] [Vector3d 1 0 0] [] () ()
       [1] [2] [5] [[Vector3d 1 1 1, Vector3d 2 2 2]] = Inr [[Vector3d 1 1 1, Vector3d 2 2 2]]
   \<and> Tides_deformation_batch [example_tide, example_tide] [] [Vector3d 1 0 0] [] () ()
       [1] [2] [5] [[Vector3d 1 1 1, Vector3d 2 2 2]] = Inr [[Vector3d 1 1 1, Vector3d 2 2 2]]
   \<and> Tides_deformation_batch [example_tide, example_tide] [2, 3] [Vector3d 1 0 0] [(), ()] () ()
       [1] [2] [5] [[Vector3d 1 1 1, Vector3d 2 2 2]] = Inr [[Vector3d 21 1 1, Vector3d 26 2 2]]
   \<and> list_all2 (\<lambda>tide d. TidesBase_displacement example_harmonics tide [2, 3] [Vector3d 1 0 0]
                   [(), ()] () () [1] [2] [5] 0 1 = Inr d)
         [example_tide, example_tide] [Vector3d 12 0 0, Vector3d 12 0 0]
   \<and> [[Vector3d 21 1 1, Vector3d 26 2 2]] ! 0 ! 1 =
       foldl vadd ([[Vector3d 1 1 1, Vector3d 2 2 2]] ! 0 ! 1) [Vector3d 12 0 0, Vector3d 12 0 0]"
proof -
  note run = example_batch
  note th = batch_deformation_accumulates [of "[2, 3]" "[Vector3d 1 0 0]" example_harmonics example_tide
      "[(), ()]" "()" "()" "[1]" "[2]" "[5]" "[[Vector3d 1 1 1, Vector3d 2 2 2]]"
      "[[Vector3d 11 1 1, Vector3d 14 2 2]]" "[example_tide, example_tide]"
      "[[Vector3d 21 1 1, Vector3d 26 2 2]]"]
  from th run have "\<exists>d. TidesBase_displacement example_harmonics example_tide [2, 3] [Vector3d 1 0 0] [(), ()] () ()
       [1] [2] [5] 0 0 = Inr d
     \<and> [[Vector3d 11 1 1, Vector3d 14 2 2]] ! 0 ! 0 = vadd ([[Vector3d 1 1 1, Vector3d 2 2 2]] ! 0 ! 0) d"
    by force
  then have d: "TidesBase_displacement example_harmonics example_tide [2, 3] [Vector3d 1 0 0] [(), ()] () ()
       [1] [2] [5] 0 0 = Inr (Vector3d 10 0 0)"
  proof (elim exE conjE)
    fix d assume d: "TidesBase_displacement example_harmonics example_tide [2, 3] [Vector3d 1 0 0]
        [(), ()] () () [1] [2] [5] 0 0 = Inr d"
      and "[[Vector3d 11 1 1, Vector3d 14 2 2]] ! 0 ! 0 = vadd ([[Vector3d 1 1 1, Vector3d 2 2 2]] ! 0 ! 0) d"
    then have "d = Vector3d 10 0 0"
      by (cases d) simp
    with d show ?thesis by simp
  qed
  note th0 = batch_deformation_accumulates [of "[]" "[Vector3d 1 0 0]" example_harmonics example_tide
      "[]" "()" "()" "[1]" "[2]" "[5]" "[[Vector3d 1 1 1, Vector3d 2 2 2]]"
      "[[Vector3d 1 1 1, Vector3d 2 2 2]]" "[example_tide, example_tide]" "[[Vector3d 1 1 1, Vector3d 2 2 2]]"]
  from th0 have e1: "TidesBase_deformation_batch example_harmonics example_tide [] [Vector3d 1 0 0] [] () ()
       [1] [2] [5] [[Vector3d 1 1 1, Vector3d 2 2 2]] = Inr [[Vector3d 1 1 1, Vector3d 2 2 2]]"
    by simp
  from th0 example_tide_base
  have e2: "Tides_deformation_batch [example_tide, example_tide] [] [Vector3d 1 0 0] [] () ()
       [1] [2] [5] [[Vector3d 1 1 1, Vector3d 2 2 2]] = Inr [[Vector3d 1 1 1, Vector3d 2 2 2]]"
    by simp
  note agg = example_aggregator
  have base: "\<forall>tide\<in>set [example_tide, example_tide].
      deformation_batch tide = TidesBase_deformation_batch example_harmonics tide"
    by (simp add: example_tide_base)
  have in_range: "0 < length [[Vector3d 1 1 1, Vector3d 2 2 2]]
      \<and> 1 < length ([[Vector3d 1 1 1, Vector3d 2 2 2]] ! 0)"
    "0 < length [Vector3d 1 0 0] \<and> 1 < length [2::nat, 3]"
    by simp_all
  note th [THEN conjunct2, THEN conjunct2, THEN mp, OF base, THEN conjunct2, THEN mp, OF agg,
      THEN conjunct2, THEN conjunct2]
  then have "\<forall>k i. k < length [[Vector3d 1 1 1, Vector3d 2 2 2]]
          \<and> i < length ([[Vector3d 1 1 1, Vector3d 2 2 2]] ! k) \<longrightarrow>
        (if k < length [Vector3d 1 0 0] \<and> i < length [2::nat, 3]
         then \<exists>ds. list_all2 (\<lambda>tide d. TidesBase_displacement example_harmonics tide [2, 3]
                        [Vector3d 1 0 0] [(), ()] () () [1] [2] [5] k i = Inr d)
                      [example_tide, example_tide] ds
                  \<and> [[Vector3d 21 1 1, Vector3d 26 2 2]] ! k ! i =
                      foldl vadd ([[Vector3d 1 1 1, Vector3d 2 2 2]] ! k ! i) ds
         else [[Vector3d 21 1 1, Vector3d 26 2 2]] ! k ! i = [[Vector3d 1 1 1, Vector3d 2 2 2]] ! k ! i)" .
  from this [rule_format, OF in_range(1)] in_range(2)
  obtain ds where ds: "list_all2 (\<lambda>tide d. TidesBase_displacement example_harmonics tide [2, 3]
                        [Vector3d 1 0 0] [(), ()] () () [1] [2] [5] 0 1 = Inr d)
                      [example_tide, example_tide] ds"
    and sum: "[[Vector3d 21 1 1, Vector3d 26 2 2]] ! 0 ! 1 =
                      foldl vadd ([[Vector3d 1 1 1, Vector3d 2 2 2]] ! 0 ! 1) ds"
    by (simp only: simp_thms if_True) blast
  from ds obtain d1 d2 where ds': "ds = [d1, d2]"
    and d1: "TidesBase_displacement example_harmonics example_tide [2, 3]
                        [Vector3d 1 0 0] [(), ()] () () [1] [2] [5] 0 1 = Inr d1"
    and d2: "TidesBase_displacement example_harmonics example_tide [2, 3]
                        [Vector3d 1 0 0] [(), ()] () () [1] [2] [5] 0 1 = Inr d2"
    by (auto simp: list_all2_Cons1)
  from d1 d2 have "d2 = d1" by simp
  with sum ds' have "Vector3d 26 2 2 = vadd (vadd (Vector3d 2 2 2) d1) d1" by simp
  then have "d1 = Vector3d 12 0 0" by (cases d1) simp
  with ds ds' sum \<open>d2 = d1\<close>
  have e3: "list_all2 (\<lambda>tide d. TidesBase_displacement example_harmonics tide [2, 3] [Vector3d 1 0 0]
                   [(), ()] () () [1] [2] [5] 0 1 = Inr d)
         [example_tide, example_tide] [Vector3d 12 0 0, Vector3d 12 0 0]"
    and e4: "[[Vector3d 21 1 1, Vector3d 26 2 2]] ! 0 ! 1 =
       foldl vadd ([[Vector3d 1 1 1, Vector3d 2 2 2]] ! 0 ! 1) [Vector3d 12 0 0, Vector3d 12 0 0]"
    by simp_all
  from run d e1 e2 agg e3 e4 show ?thesis by simp
qed

end
